theory Spec2Isabelle
  imports Complex_Main
begin

section \<open>Scotty: the 3D beam state codec, its evolution function and the launch solver\<close>

text \<open>
  The theory embeds \<^verbatim>\<open>src/scotty/fun_evolution_3D.py\<close> and \<^verbatim>\<open>src/scotty/launch.py\<close>.
  Python floats are read as the reals and complex128 as the complex numbers, so every
  statement below is about exact arithmetic; rounding, NaN and infinities are outside the
  model. Arrays are modelled at the shapes the functions are documented for: a state
  vector is a flat array of reals, a beam matrix is a 3 by 3 tuple of rows.
  Exceptions are values of the type \<open>error\<close> on the left of a sum.
\<close>

subsection \<open>Exceptions\<close>

datatype runtime_error =
    Beam_does_not_hit_plasma "real \<times> real \<times> real" real
  | Could_not_find_plasma_boundary string

datatype error =
    TypeError
  | IndexError
  | KeyError string
  | ValueError string
  | UnboundLocalError string
  | ZeroDivisionError
  | RuntimeError runtime_error

subsection \<open>Vectors and 3 by 3 matrices\<close>

type_synonym 'a vec3 = "'a \<times> 'a \<times> 'a"
type_synonym 'a mat3 = "'a vec3 \<times> 'a vec3 \<times> 'a vec3"

datatype ix3 = X0 | X1 | X2

fun nth3 :: "'a vec3 \<Rightarrow> ix3 \<Rightarrow> 'a" where
  "nth3 (a, b, c) X0 = a"
| "nth3 (a, b, c) X1 = b"
| "nth3 (a, b, c) X2 = c"

fun upd3 :: "'a vec3 \<Rightarrow> ix3 \<Rightarrow> 'a \<Rightarrow> 'a vec3" where
  "upd3 (a, b, c) X0 v = (v, b, c)"
| "upd3 (a, b, c) X1 v = (a, v, c)"
| "upd3 (a, b, c) X2 v = (a, b, v)"

definition at3 :: "'a mat3 \<Rightarrow> ix3 \<Rightarrow> ix3 \<Rightarrow> 'a" where
  \<comment> \<open>\<^verbatim>\<open>M[i, j]\<close>\<close>
  "at3 M i j = nth3 (nth3 M i) j"

definition set3 :: "'a mat3 \<Rightarrow> ix3 \<Rightarrow> ix3 \<Rightarrow> 'a \<Rightarrow> 'a mat3" where
  \<comment> \<open>\<^verbatim>\<open>M[i, j] = v\<close>, returning the updated matrix\<close>
  "set3 M i j v = upd3 M i (upd3 (nth3 M i) j v)"

definition col3 :: "'a mat3 \<Rightarrow> ix3 \<Rightarrow> 'a vec3" where
  "col3 M j = (at3 M X0 j, at3 M X1 j, at3 M X2 j)"

definition dot3 :: "'a::comm_ring_1 vec3 \<Rightarrow> 'a vec3 \<Rightarrow> 'a" where
  "dot3 u v = nth3 u X0 * nth3 v X0 + nth3 u X1 * nth3 v X1 + nth3 u X2 * nth3 v X2"

definition matmul :: "'a::comm_ring_1 mat3 \<Rightarrow> 'a mat3 \<Rightarrow> 'a mat3" where
  \<comment> \<open>\<^verbatim>\<open>np.matmul(A, B)\<close> on two 3 by 3 arrays\<close>
  "matmul A B =
     ((dot3 (nth3 A X0) (col3 B X0), dot3 (nth3 A X0) (col3 B X1), dot3 (nth3 A X0) (col3 B X2)),
      (dot3 (nth3 A X1) (col3 B X0), dot3 (nth3 A X1) (col3 B X1), dot3 (nth3 A X1) (col3 B X2)),
      (dot3 (nth3 A X2) (col3 B X0), dot3 (nth3 A X2) (col3 B X1), dot3 (nth3 A X2) (col3 B X2)))"

definition transpose3 :: "'a mat3 \<Rightarrow> 'a mat3" where
  \<comment> \<open>\<^verbatim>\<open>np.transpose(M)\<close> on a 3 by 3 array\<close>
  "transpose3 M = (col3 M X0, col3 M X1, col3 M X2)"

definition map_mat3 :: "('a \<Rightarrow> 'b) \<Rightarrow> 'a mat3 \<Rightarrow> 'b mat3" where
  "map_mat3 f M =
     ((f (at3 M X0 X0), f (at3 M X0 X1), f (at3 M X0 X2)),
      (f (at3 M X1 X0), f (at3 M X1 X1), f (at3 M X1 X2)),
      (f (at3 M X2 X0), f (at3 M X2 X1), f (at3 M X2 X2)))"

definition zip_mat3 :: "('a \<Rightarrow> 'b \<Rightarrow> 'c) \<Rightarrow> 'a mat3 \<Rightarrow> 'b mat3 \<Rightarrow> 'c mat3" where
  "zip_mat3 f M N =
     ((f (at3 M X0 X0) (at3 N X0 X0), f (at3 M X0 X1) (at3 N X0 X1), f (at3 M X0 X2) (at3 N X0 X2)),
      (f (at3 M X1 X0) (at3 N X1 X0), f (at3 M X1 X1) (at3 N X1 X1), f (at3 M X1 X2) (at3 N X1 X2)),
      (f (at3 M X2 X0) (at3 N X2 X0), f (at3 M X2 X1) (at3 N X2 X1), f (at3 M X2 X2) (at3 N X2 X2)))"

definition mat_neg :: "'a::comm_ring_1 mat3 \<Rightarrow> 'a mat3" where
  "mat_neg M = map_mat3 uminus M"

definition mat_sub :: "'a::comm_ring_1 mat3 \<Rightarrow> 'a mat3 \<Rightarrow> 'a mat3" where
  "mat_sub M N = zip_mat3 (\<lambda>x y. x - y) M N"

definition zeros3 :: "complex mat3" where
  \<comment> \<open>\<^verbatim>\<open>np.zeros([3, 3], dtype="complex128")\<close>\<close>
  "zeros3 = ((0, 0, 0), (0, 0, 0), (0, 0, 0))"

definition symmetric3 :: "'a mat3 \<Rightarrow> bool" where
  "symmetric3 M = (transpose3 M = M)"

subsection \<open>\<^verbatim>\<open>fun_evolution_3D.py\<close>: the state codec\<close>

text \<open>
  A numpy array as the codec meets it: a 0-dimensional array holding one float, or a flat
  array of floats. The batched two-dimensional form is not modelled.
\<close>

datatype ndarray = Arr0 real | Arr1 "real list"

text \<open>
  \<^verbatim>\<open>np.array(object, dtype=None, *, copy=True, ...)\<close> called with positional float
  arguments only. One argument is the object and gives a 0-dimensional array. A second
  positional float is taken as the dtype, which a float is not, and more than two
  positional arguments do not fit the signature: both raise TypeError, as does a call
  with no object.
\<close>

definition np_array :: "real list \<Rightarrow> error + ndarray" where
  "np_array args = (case args of [obj] \<Rightarrow> Inr (Arr0 obj) | _ \<Rightarrow> Inl TypeError)"

definition pack_beam_parameters_3D ::
  "real \<Rightarrow> real \<Rightarrow> real \<Rightarrow> real \<Rightarrow> real \<Rightarrow> real \<Rightarrow> complex mat3 \<Rightarrow> error + ndarray" where
  "pack_beam_parameters_3D q_X q_Y q_Z K_X K_Y K_Z Psi =
     np_array
       [q_X, q_Y, q_Z, K_X, K_Y, K_Z,
        Re (at3 Psi X0 X0), Re (at3 Psi X1 X1), Re (at3 Psi X2 X2),
        Re (at3 Psi X0 X1), Re (at3 Psi X0 X2), Re (at3 Psi X1 X2),
        Im (at3 Psi X0 X0), Im (at3 Psi X1 X1), Im (at3 Psi X2 X2),
        Im (at3 Psi X0 X1), Im (at3 Psi X0 X2), Im (at3 Psi X1 X2)]"

text \<open>
  The packing the documentation describes, for comparison with the source: the same
  eighteen values in the same order, handed to \<^verbatim>\<open>np.array\<close> as one sequence.
\<close>

definition pack_as_documented ::
  "real \<Rightarrow> real \<Rightarrow> real \<Rightarrow> real \<Rightarrow> real \<Rightarrow> real \<Rightarrow> complex mat3 \<Rightarrow> ndarray" where
  "pack_as_documented q_X q_Y q_Z K_X K_Y K_Z Psi =
     Arr1
       [q_X, q_Y, q_Z, K_X, K_Y, K_Z,
        Re (at3 Psi X0 X0), Re (at3 Psi X1 X1), Re (at3 Psi X2 X2),
        Re (at3 Psi X0 X1), Re (at3 Psi X0 X2), Re (at3 Psi X1 X2),
        Im (at3 Psi X0 X0), Im (at3 Psi X1 X1), Im (at3 Psi X2 X2),
        Im (at3 Psi X0 X1), Im (at3 Psi X0 X2), Im (at3 Psi X1 X2)]"

definition slot :: "real list \<Rightarrow> nat \<Rightarrow> nat \<Rightarrow> complex" where
  \<comment> \<open>\<^verbatim>\<open>beam_parameters[r, ...] + 1j * beam_parameters[i, ...]\<close>\<close>
  "slot bp r i = complex_of_real (bp ! r) + \<i> * complex_of_real (bp ! i)"

definition unpack_Psi :: "real list \<Rightarrow> complex mat3" where
  \<comment> \<open>lines 58 to 67, one assignment after the other on the zero matrix\<close>
  "unpack_Psi bp =
     (let Psi = zeros3;
          Psi = set3 Psi X0 X0 (slot bp 6 12);
          Psi = set3 Psi X1 X1 (slot bp 7 13);
          Psi = set3 Psi X2 X2 (slot bp 8 14);
          Psi = set3 Psi X0 X1 (slot bp 9 15);
          Psi = set3 Psi X0 X2 (slot bp 10 16);
          Psi = set3 Psi X1 X2 (slot bp 11 17);
          Psi = set3 Psi X0 X1 (at3 Psi X1 X0);
          Psi = set3 Psi X2 X0 (at3 Psi X0 X2);
          Psi = set3 Psi X2 X1 (at3 Psi X1 X2)
      in Psi)"

fun unpack_beam_parameters_3D ::
  "ndarray \<Rightarrow> error + (real \<times> real \<times> real \<times> real \<times> real \<times> real \<times> complex mat3)" where
  "unpack_beam_parameters_3D (Arr0 x) = Inl IndexError"
| "unpack_beam_parameters_3D (Arr1 bp) =
     (if length bp < 18 then Inl IndexError
      else Inr (bp ! 0, bp ! 1, bp ! 2, bp ! 3, bp ! 4, bp ! 5, unpack_Psi bp))"

subsection \<open>\<^verbatim>\<open>fun_evolution_3D.py\<close>: the evolution function\<close>

text \<open>
  The dispersion provider is not part of these sources. \<^verbatim>\<open>hamiltonian.derivatives\<close>
  returns a dictionary, here a map from key to value, or raises; \<^verbatim>\<open>hessians_3D\<close> turns
  the dictionary into the three second-derivative matrices, or raises. Both are
  parameters of the model.
\<close>

type_synonym dH_dict = "string \<rightharpoonup> real"

record provider_3D =
  derivatives_3D :: "real \<Rightarrow> real \<Rightarrow> real \<Rightarrow> real \<Rightarrow> real \<Rightarrow> real \<Rightarrow> error + dH_dict"
  hessians_3D :: "dH_dict \<Rightarrow> error + (complex mat3 \<times> complex mat3 \<times> complex mat3)"

definition getitem :: "dH_dict \<Rightarrow> string \<Rightarrow> error + real" where
  \<comment> \<open>\<^verbatim>\<open>dH[key]\<close>\<close>
  "getitem d k = (case d k of None \<Rightarrow> Inl (KeyError k) | Some v \<Rightarrow> Inr v)"

definition bind :: "error + 'a \<Rightarrow> ('a \<Rightarrow> error + 'b) \<Rightarrow> error + 'b" where
  "bind m f = (case m of Inl e \<Rightarrow> Inl e | Inr x \<Rightarrow> f x)"

definition d_Psi_d_tau ::
  "complex mat3 \<Rightarrow> complex mat3 \<Rightarrow> complex mat3 \<Rightarrow> complex mat3 \<Rightarrow> complex mat3" where
  \<comment> \<open>lines 94 and 103 to 108\<close>
  "d_Psi_d_tau Psi grad_grad_H gradK_grad_H gradK_gradK_H =
     (let grad_gradK_H = transpose3 gradK_grad_H
      in mat_sub
           (mat_sub
              (mat_sub (mat_neg grad_grad_H) (matmul Psi gradK_grad_H))
              (matmul grad_gradK_H Psi))
           (matmul (matmul Psi gradK_gradK_H) Psi))"

definition beam_evolution_fun_3D :: "real \<Rightarrow> ndarray \<Rightarrow> provider_3D \<Rightarrow> error + ndarray" where
  "beam_evolution_fun_3D tau beam_parameters hamiltonian =
     bind (unpack_beam_parameters_3D beam_parameters)
       (\<lambda>(q_X, q_Y, q_Z, K_X, K_Y, K_Z, Psi).
     bind (derivatives_3D hamiltonian q_X q_Y q_Z K_X K_Y K_Z) (\<lambda>dH.
     bind (hessians_3D hamiltonian dH) (\<lambda>(grad_grad_H, gradK_grad_H, gradK_gradK_H).
     bind (getitem dH ''dH_dX'') (\<lambda>dH_dX.
     bind (getitem dH ''dH_dY'') (\<lambda>dH_dY.
     bind (getitem dH ''dH_dZ'') (\<lambda>dH_dZ.
     bind (getitem dH ''dH_dKx'') (\<lambda>dH_dKx.
     bind (getitem dH ''dH_dKy'') (\<lambda>dH_dKy.
     bind (getitem dH ''dH_dKz'') (\<lambda>dH_dKz.
       pack_beam_parameters_3D dH_dKx dH_dKy dH_dKz (- dH_dX) (- dH_dY) (- dH_dZ)
         (d_Psi_d_tau Psi grad_grad_H gradK_grad_H gradK_gradK_H))))))))))"

subsection \<open>Output and warnings\<close>

text \<open>
  \<^verbatim>\<open>launch_beam\<close> prints and warns while it works. The model keeps both as a list of
  events in the order the calls are made, so that what ran before a failure can be read
  off the result.
\<close>

datatype printed = PStr string | PNum real | PMat "complex mat3"

datatype event = DeprecationWarning string | Print "printed list"

type_synonym 'a py = "event list \<times> (error + 'a)"

definition ret :: "'a \<Rightarrow> 'a py" where
  "ret v = ([], Inr v)"

definition raise :: "error \<Rightarrow> 'a py" where
  "raise e = ([], Inl e)"

definition emit :: "event \<Rightarrow> unit py" where
  "emit ev = ([ev], Inr ())"

definition then_py :: "'a py \<Rightarrow> ('a \<Rightarrow> 'b py) \<Rightarrow> 'b py" where
  \<comment> \<open>run the first part; an exception ends the run with the events so far\<close>
  "then_py m f =
     (case m of
        (evs, Inl e) \<Rightarrow> (evs, Inl e)
      | (evs, Inr v) \<Rightarrow> (case f v of (evs', r) \<Rightarrow> (evs @ evs', r)))"

subsection \<open>2 by 2 matrices and the helpers of \<^verbatim>\<open>scotty.fun_general\<close>\<close>

type_synonym 'a mat2 = "('a \<times> 'a) \<times> ('a \<times> 'a)"

definition eye2 :: "complex mat2" where
  \<comment> \<open>\<^verbatim>\<open>np.eye(2)\<close>\<close>
  "eye2 = ((1, 0), (0, 1))"

definition scale2 :: "complex \<Rightarrow> complex mat2 \<Rightarrow> complex mat2" where
  "scale2 k M = (case M of ((a, b), (c, d)) \<Rightarrow> ((k * a, k * b), (k * c, k * d)))"

definition add2 :: "complex mat2 \<Rightarrow> complex mat2 \<Rightarrow> complex mat2" where
  "add2 M N =
     (case M of ((a, b), (c, d)) \<Rightarrow> case N of ((e, f), (g, h)) \<Rightarrow>
        ((a + e, b + f), (c + g, d + h)))"

definition matmul2 :: "complex mat2 \<Rightarrow> complex mat2 \<Rightarrow> complex mat2" where
  "matmul2 M N =
     (case M of ((a, b), (c, d)) \<Rightarrow> case N of ((e, f), (g, h)) \<Rightarrow>
        ((a * e + b * g, a * f + b * h), (c * e + d * g, c * f + d * h)))"

text \<open>
  Modelled from the spec: \<^verbatim>\<open>find_inverse_2D\<close> of \<^verbatim>\<open>scotty.fun_general\<close>, which is
  not among the sources. The spec has the launch matrix inverted, the distance term
  added and the sum inverted back; the model is the inverse of a 2 by 2 matrix by its
  adjugate and determinant.
\<close>

definition find_inverse_2D :: "complex mat2 \<Rightarrow> complex mat2" where
  "find_inverse_2D M =
     (case M of ((a, b), (c, d)) \<Rightarrow>
        (let determinant = a * d - b * c
         in ((d / determinant, - b / determinant), (- c / determinant, a / determinant))))"

text \<open>
  Modelled from the spec: \<^verbatim>\<open>make_array_3x3\<close> of \<^verbatim>\<open>scotty.fun_general\<close>, which is
  not among the sources. The spec embeds the 2 by 2 transverse matrix into a 3 by 3 matrix
  with a zero third row and column, and the comments at lines 200 to 202 of
  \<^verbatim>\<open>launch.py\<close> draw the same layout.
\<close>

definition make_array_3x3 :: "complex mat2 \<Rightarrow> complex mat3" where
  "make_array_3x3 M = (case M of ((a, b), (c, d)) \<Rightarrow> ((a, b, 0), (c, d, 0), (0, 0, 0)))"

text \<open>
  The other helpers of \<^verbatim>\<open>scotty.fun_general\<close>, the boundary-condition transforms and
  the three scipy routines are parameters of the model. Each is taken as a function of
  its numeric arguments that returns; what they raise themselves is outside the model.
\<close>

record root_result =
  rs_converged :: bool
  rs_root :: real
  rs_flag :: string

record minimize_result =
  ms_x :: real
  ms_fun :: real

record MagneticField =
  poloidal_flux :: "real \<Rightarrow> real \<Rightarrow> real"
  R_coord_max :: real
  Z_coord_max :: real

record Hamiltonian =
  derivatives :: "real \<Rightarrow> real \<Rightarrow> real \<Rightarrow> real \<Rightarrow> real \<Rightarrow> real \<Rightarrow> dH_dict"

record externals =
  angular_frequency_to_wavenumber :: "real \<Rightarrow> real"
  find_Psi_3D_lab :: "complex mat3 \<Rightarrow> real \<Rightarrow> real \<Rightarrow> real \<Rightarrow> real \<Rightarrow> complex mat3"
  find_K_lab_Cartesian :: "real vec3 \<Rightarrow> real vec3 \<Rightarrow> real vec3"
  find_K_lab :: "real vec3 \<Rightarrow> real vec3 \<Rightarrow> real vec3"
  cartesian_to_cylindrical :: "real \<Rightarrow> real \<Rightarrow> real \<Rightarrow> real vec3"
  cylindrical_to_cartesian :: "real \<Rightarrow> real \<Rightarrow> real \<Rightarrow> real vec3"
  toroidal_to_cartesian :: "real \<Rightarrow> real \<Rightarrow> real \<Rightarrow> real vec3"
  apply_discontinuous_BC ::
    "real \<Rightarrow> real \<Rightarrow> complex mat3 \<Rightarrow> real \<Rightarrow> real \<Rightarrow> real \<Rightarrow> real \<Rightarrow> int \<Rightarrow> real \<Rightarrow> real \<Rightarrow>
     MagneticField \<Rightarrow> Hamiltonian \<Rightarrow> real option \<Rightarrow> real vec3 \<times> complex mat3"
  apply_continuous_BC ::
    "real \<Rightarrow> real \<Rightarrow> complex mat3 \<Rightarrow> real \<Rightarrow> real \<Rightarrow> real \<Rightarrow> real \<Rightarrow> real \<Rightarrow>
     MagneticField \<Rightarrow> Hamiltonian \<Rightarrow> real vec3 \<times> complex mat3"
  CubicSpline_roots :: "real list \<Rightarrow> real list \<Rightarrow> real list"
  minimize_scalar :: "(real \<Rightarrow> real) \<Rightarrow> minimize_result"
  root_scalar :: "(real \<Rightarrow> real) \<Rightarrow> real \<Rightarrow> real \<Rightarrow> root_result"

subsection \<open>\<^verbatim>\<open>launch.py\<close>: \<^verbatim>\<open>find_entry_point\<close>\<close>

definition vec_add :: "real vec3 \<Rightarrow> real vec3 \<Rightarrow> real vec3" where
  "vec_add u v = (nth3 u X0 + nth3 v X0, nth3 u X1 + nth3 v X1, nth3 u X2 + nth3 v X2)"

definition vec_scale :: "real \<Rightarrow> real vec3 \<Rightarrow> real vec3" where
  "vec_scale k v = (k * nth3 v X0, k * nth3 v X1, k * nth3 v X2)"

definition hypot :: "real \<Rightarrow> real \<Rightarrow> real" where
  \<comment> \<open>\<^verbatim>\<open>np.hypot\<close>\<close>
  "hypot a b = sqrt (a\<^sup>2 + b\<^sup>2)"

definition linspace_0_1_100 :: "real list" where
  \<comment> \<open>\<^verbatim>\<open>np.linspace(0, 1, 100)\<close>\<close>
  "linspace_0_1_100 = map (\<lambda>i. real i / 99) [0..<100]"

definition step_array :: "externals \<Rightarrow> MagneticField \<Rightarrow> real vec3 \<Rightarrow> real \<Rightarrow> real \<Rightarrow> real vec3" where
  \<comment> \<open>lines 445 to 463\<close>
  "step_array ext field launch_position poloidal_launch_angle toroidal_launch_angle =
     (let X_start = nth3 launch_position X0;
          Z_start = nth3 launch_position X2;
          X_length = \<bar>X_start\<bar> + R_coord_max field;
          Z_length = \<bar>Z_start\<bar> + Z_coord_max field;
          max_length = hypot X_length Z_length;
          toroidal_launch_angle = toroidal_launch_angle + pi;
          poloidal_launch_angle = - poloidal_launch_angle
      in toroidal_to_cartesian ext max_length poloidal_launch_angle toroidal_launch_angle)"

definition beam_line :: "real vec3 \<Rightarrow> real vec3 \<Rightarrow> real \<Rightarrow> real vec3" where
  \<comment> \<open>the closure at line 465, with the two arrays it captures\<close>
  "beam_line launch_position steps tau = vec_add launch_position (vec_scale tau steps)"

definition to_cylindrical :: "externals \<Rightarrow> real vec3 \<Rightarrow> real vec3" where
  \<comment> \<open>\<^verbatim>\<open>cartesian_to_cylindrical(*point)\<close>\<close>
  "to_cylindrical ext p = cartesian_to_cylindrical ext (nth3 p X0) (nth3 p X1) (nth3 p X2)"

definition flux_at :: "externals \<Rightarrow> MagneticField \<Rightarrow> real vec3 \<Rightarrow> real" where
  \<comment> \<open>\<^verbatim>\<open>R, _, Z = cartesian_to_cylindrical(*point); field.poloidal_flux(R, Z)\<close>\<close>
  "flux_at ext field p =
     (let c = to_cylindrical ext p in poloidal_flux field (nth3 c X0) (nth3 c X2))"

definition poloidal_flux_boundary_along_line ::
  "externals \<Rightarrow> MagneticField \<Rightarrow> real vec3 \<Rightarrow> real vec3 \<Rightarrow> real \<Rightarrow> real \<Rightarrow> real" where
  \<comment> \<open>the closure at line 469\<close>
  "poloidal_flux_boundary_along_line ext field launch_position steps poloidal_flux_enter tau =
     flux_at ext field (beam_line launch_position steps tau) - poloidal_flux_enter"

definition find_entry_point ::
  "externals \<Rightarrow> real vec3 \<Rightarrow> real \<Rightarrow> real \<Rightarrow> real \<Rightarrow> MagneticField \<Rightarrow> real \<Rightarrow> error + real vec3" where
  "find_entry_point ext launch_position poloidal_launch_angle toroidal_launch_angle
       poloidal_flux_enter field boundary_adjust =
     (let steps = step_array ext field launch_position poloidal_launch_angle toroidal_launch_angle;
          f = poloidal_flux_boundary_along_line ext field launch_position steps poloidal_flux_enter;
          tau = linspace_0_1_100;
          spline_roots = CubicSpline_roots ext tau (map f tau)
      in if length spline_roots = 0 then
           (let minimum = minimize_scalar ext f;
                miss = to_cylindrical ext (beam_line launch_position steps (ms_x minimum))
            in Inl (RuntimeError (Beam_does_not_hit_plasma miss (ms_fun minimum))))
         else
           (let boundary = root_scalar ext f (hd spline_roots) (hd spline_roots + 1 / 1000)
            in if \<not> rs_converged boundary then
                 Inl (RuntimeError (Could_not_find_plasma_boundary (rs_flag boundary)))
               else
                 (let boundary_tau = rs_root boundary;
                      boundary_tau =
                        (if flux_at ext field (beam_line launch_position steps boundary_tau)
                              > poloidal_flux_enter
                         then boundary_tau + boundary_adjust else boundary_tau)
                  in Inr (to_cylindrical ext (beam_line launch_position steps boundary_tau)))))"

subsection \<open>\<^verbatim>\<open>launch.py\<close>: \<^verbatim>\<open>launch_beam\<close>\<close>

text \<open>The values \<^verbatim>\<open>Psi_BC_flag\<close> is annotated with: \<^verbatim>\<open>Union[bool, str, None]\<close>.\<close>

datatype py_flag = PyNone | PyBool bool | PyStr string

fun py_str :: "py_flag \<Rightarrow> string" where
  \<comment> \<open>the text an f-string puts for the value\<close>
  "py_str PyNone = ''None''"
| "py_str (PyBool b) = (if b then ''True'' else ''False'')"
| "py_str (PyStr s) = s"

definition quote :: string where
  \<comment> \<open>the single quote character\<close>
  "quote = [CHR 0x27]"

definition backtick :: string where
  "backtick = [CHR 0x60]"

definition deprecation_text :: string where
  \<comment> \<open>the message of the two \<^verbatim>\<open>warnings.warn\<close> calls\<close>
  "deprecation_text =
     ''Boolean '' @ backtick @ ''Psi_BC_flag'' @ backtick @
     '' is deprecated, please use None, '' @ quote @ ''continuous'' @ quote @
     '', or '' @ quote @ ''discontinuous'' @ quote"

definition unexpected_text :: "py_flag \<Rightarrow> string" where
  \<comment> \<open>the f-string of line 123\<close>
  "unexpected_text v =
     ''Unexpected value for '' @ backtick @ ''Psi_BC_flag'' @ backtick @ '' ('' @ py_str v @
     ''), expected one of None, '' @ quote @ ''continuous, or '' @ quote @
     ''discontinuous'' @ quote"

definition normalise_Psi_BC_flag :: "py_flag \<Rightarrow> py_flag py" where
  \<comment> \<open>lines 103 to 124\<close>
  "normalise_Psi_BC_flag Psi_BC_flag =
     (if Psi_BC_flag = PyBool True then
        then_py (emit (DeprecationWarning deprecation_text)) (\<lambda>_.
        then_py (emit (Print [PStr (''Setting Psi_BC_flag = '' @ quote @ ''continuous'' @ quote
                                    @ '' for backward compatibility'')])) (\<lambda>_.
        ret (PyStr ''continuous'')))
      else if Psi_BC_flag = PyBool False then
        then_py (emit (DeprecationWarning deprecation_text)) (\<lambda>_.
        then_py (emit (Print [PStr ''Setting Psi_BC_flag = None for backward compatibility ''])) (\<lambda>_.
        ret PyNone))
      else if Psi_BC_flag \<noteq> PyNone \<and> Psi_BC_flag \<noteq> PyStr ''continuous''
              \<and> Psi_BC_flag \<noteq> PyStr ''discontinuous'' then
        raise (ValueError (unexpected_text Psi_BC_flag))
      else ret Psi_BC_flag)"

definition lift :: "error + 'a \<Rightarrow> 'a py" where
  "lift r = ([], r)"

definition deg2rad :: "real \<Rightarrow> real" where
  \<comment> \<open>\<^verbatim>\<open>np.deg2rad\<close>\<close>
  "deg2rad d = d * (pi / 180)"

definition launch_wavevector :: "string \<Rightarrow> real \<Rightarrow> real \<Rightarrow> real \<Rightarrow> real vec3 \<Rightarrow> real vec3 option py" where
  \<comment> \<open>lines 131 to 155; \<open>None\<close> when neither branch binds the three names\<close>
  "launch_wavevector flag_coordinate_system wavenumber_K0 toroidal_launch_angle
       poloidal_launch_angle launch_position =
     (if flag_coordinate_system = ''cylindrical'' then
        (let K_R_launch = - wavenumber_K0 * cos toroidal_launch_angle * cos poloidal_launch_angle;
             K_zeta_launch = - wavenumber_K0 * sin toroidal_launch_angle
                               * cos poloidal_launch_angle * nth3 launch_position X0;
             K_Z_launch = - wavenumber_K0 * sin poloidal_launch_angle
         in ret (Some (K_R_launch, K_zeta_launch, K_Z_launch)))
      else if flag_coordinate_system = ''cartesian'' then
        (let K_R_launch = - wavenumber_K0 * cos toroidal_launch_angle * cos poloidal_launch_angle;
             K_zeta_launch = - wavenumber_K0 * sin toroidal_launch_angle * cos poloidal_launch_angle;
             K_Z_launch = - wavenumber_K0 * sin poloidal_launch_angle
         in then_py (emit (Print [PStr ''K_R_launch'', PNum K_R_launch])) (\<lambda>_.
            then_py (emit (Print [PStr ''K_zeta_launch'', PNum K_zeta_launch])) (\<lambda>_.
            then_py (emit (Print [PStr ''K_Z_launch'', PNum K_Z_launch])) (\<lambda>_.
            ret (Some (K_R_launch, K_zeta_launch, K_Z_launch))))))
      else ret None)"

definition pow_minus_2 :: "real \<Rightarrow> error + real" where
  \<comment> \<open>\<^verbatim>\<open>launch_beam_width ** (-2)\<close> on a Python float\<close>
  "pow_minus_2 w = (if w = 0 then Inl ZeroDivisionError else Inr (1 / w\<^sup>2))"

definition Psi_w_beam_launch :: "real \<Rightarrow> real \<Rightarrow> real \<Rightarrow> complex mat2" where
  \<comment> \<open>lines 160 to 163, with \<open>w2\<close> the value of \<^verbatim>\<open>launch_beam_width ** (-2)\<close>\<close>
  "Psi_w_beam_launch wavenumber_K0 launch_beam_curvature w2 =
     (let Psi_w_beam_diagonal =
            complex_of_real (wavenumber_K0 * launch_beam_curvature) + 2 * \<i> * complex_of_real w2
      in scale2 Psi_w_beam_diagonal eye2)"

definition Psi_w_beam_entry :: "real \<Rightarrow> complex mat2 \<Rightarrow> real \<Rightarrow> complex mat2" where
  \<comment> \<open>lines 303 and 335 to 343, up to the embedding\<close>
  "Psi_w_beam_entry wavenumber_K0 Psi_w_beam_launch_cartersian distance =
     (let Psi_w_beam_inverse_launch_cartersian = find_inverse_2D Psi_w_beam_launch_cartersian;
          Psi_w_beam_inverse_entry_cartersian =
            add2 (scale2 (complex_of_real (distance / wavenumber_K0)) eye2)
                 Psi_w_beam_inverse_launch_cartersian
      in find_inverse_2D Psi_w_beam_inverse_entry_cartersian)"

definition rotation_matrix :: "real \<Rightarrow> real \<Rightarrow> real mat3" where
  \<comment> \<open>lines 157 and 166 to 197\<close>
  "rotation_matrix toroidal_launch_angle poloidal_launch_angle =
     (let poloidal_rotation_angle = poloidal_launch_angle + pi / 2;
          rotation_matrix_pol =
            ((cos poloidal_rotation_angle, 0, sin poloidal_rotation_angle),
             (0, 1, 0),
             (- sin poloidal_rotation_angle, 0, cos poloidal_rotation_angle));
          rotation_matrix_tor =
            ((cos toroidal_launch_angle, sin toroidal_launch_angle, 0),
             (- sin toroidal_launch_angle, cos toroidal_launch_angle, 0),
             (0, 0, 1))
      in matmul rotation_matrix_pol rotation_matrix_tor)"

definition to_lab :: "real mat3 \<Rightarrow> complex mat3 \<Rightarrow> complex mat3" where
  \<comment> \<open>\<^verbatim>\<open>np.matmul(rotation_matrix_inverse, np.matmul(Psi, rotation_matrix))\<close>\<close>
  "to_lab rot Psi =
     (let rotation_matrix_inverse = transpose3 rot
      in matmul (map_mat3 complex_of_real rotation_matrix_inverse)
           (matmul Psi (map_mat3 complex_of_real rot)))"

definition set_col2 :: "complex mat3 \<Rightarrow> real vec3 \<Rightarrow> complex mat3" where
  \<comment> \<open>\<^verbatim>\<open>M[:, 2] = v\<close>\<close>
  "set_col2 M v =
     (let M = set3 M X0 X2 (complex_of_real (nth3 v X0));
          M = set3 M X1 X2 (complex_of_real (nth3 v X1));
          M = set3 M X2 X2 (complex_of_real (nth3 v X2))
      in M)"

definition set_row2 :: "complex mat3 \<Rightarrow> real vec3 \<Rightarrow> complex mat3" where
  \<comment> \<open>\<^verbatim>\<open>M[2, :] = v\<close>\<close>
  "set_row2 M v =
     (let M = set3 M X2 X0 (complex_of_real (nth3 v X0));
          M = set3 M X2 X1 (complex_of_real (nth3 v X1));
          M = set3 M X2 X2 (complex_of_real (nth3 v X2))
      in M)"

text \<open>
  Lines 204 to 261, the first block under the Cartesian flag. It reads the first
  derivatives from the provider's dictionary, writes the position gradient into the last
  column and row of the beam-frame matrix and rotates the result to the lab frame. The
  unit vector \<^verbatim>\<open>g_hat\<close> of lines 218 and 219 is computed and never read, and is left out.
  The block gives the lab-frame matrix.
\<close>

definition cartesian_launch_block ::
  "Hamiltonian \<Rightarrow> real vec3 \<Rightarrow> real vec3 \<Rightarrow> complex mat3 \<Rightarrow> real mat3 \<Rightarrow> complex mat3 py" where
  "cartesian_launch_block hamiltonian launch_position K Psi_3D_beam_launch_cartersian rot =
     (let dH = derivatives hamiltonian
                 (nth3 launch_position X0) (nth3 launch_position X1) (nth3 launch_position X2)
                 (nth3 K X0) (nth3 K X1) (nth3 K X2)
      in then_py (lift (getitem dH ''dH_dX'')) (\<lambda>dH_dX.
         then_py (lift (getitem dH ''dH_dY'')) (\<lambda>dH_dY.
         then_py (lift (getitem dH ''dH_dZ'')) (\<lambda>dH_dZ.
         then_py (lift (getitem dH ''dH_dKX'')) (\<lambda>dH_dKX.
         then_py (lift (getitem dH ''dH_dKY'')) (\<lambda>dH_dKY.
         then_py (lift (getitem dH ''dH_dKZ'')) (\<lambda>dH_dKZ.
         let grad_H = (dH_dX, dH_dY, dH_dZ) in
         then_py (emit (Print [PMat Psi_3D_beam_launch_cartersian,
                               PStr ''Psi_3D_beam_launch_cartersian''])) (\<lambda>_.
         let Psi_3D_beam_launch_cartersian = set_col2 Psi_3D_beam_launch_cartersian grad_H;
             Psi_3D_beam_launch_cartersian = set_row2 Psi_3D_beam_launch_cartersian grad_H in
         then_py (emit (Print [PMat Psi_3D_beam_launch_cartersian,
                               PStr ''Psi_3D_beam_launch_cartersian''])) (\<lambda>_.
         let Psi_3D_lab_launch_cartersian = to_lab rot Psi_3D_beam_launch_cartersian in
         then_py (emit (Print [PStr ''Psi_3D_lab_launch_cartersian'',
                               PMat Psi_3D_lab_launch_cartersian])) (\<lambda>_.
         ret Psi_3D_lab_launch_cartersian))))))))))"

definition invalid_flag_text :: "string \<Rightarrow> printed list" where
  \<comment> \<open>the two arguments of the \<^verbatim>\<open>print\<close> at lines 281 to 283\<close>
  "invalid_flag_text flag_coordinate_system =
     [PStr (''The flag specified for '' @ quote @ ''flag_coordinate_system'' @ quote @ '': ''
            @ quote @ flag_coordinate_system @ quote @ '' does not exist.''),
      PStr (quote @ ''flag_coordinate_system'' @ quote @ '' only accepts '' @ quote
            @ ''cylindrical'' @ quote @ '' or '' @ quote @ ''cartesian'' @ quote @ ''.'')]"

definition launch_to_entry_distance :: "real vec3 \<Rightarrow> real vec3 \<Rightarrow> real" where
  \<comment> \<open>lines 313 to 321\<close>
  "launch_to_entry_distance launch_position entry_position =
     sqrt ((nth3 launch_position X0)\<^sup>2 + (nth3 entry_position X0)\<^sup>2
           - 2 * nth3 launch_position X0 * nth3 entry_position X0
               * cos (nth3 entry_position X1 - nth3 launch_position X1)
           + (nth3 launch_position X2 - nth3 entry_position X2)\<^sup>2)"

datatype 'a or_nan = All_nan | Value 'a

record launch_args =
  toroidal_launch_angle_Torbeam :: real
  poloidal_launch_angle_Torbeam :: real
  launch_beam_width :: real
  launch_beam_curvature :: real
  launch_position :: "real vec3"
  launch_angular_frequency :: real
  mode_flag :: int
  field :: MagneticField
  hamiltonian :: Hamiltonian
  vacuumLaunch_flag :: bool
  vacuum_propagation_flag :: bool
  Psi_BC_flag :: py_flag
  poloidal_flux_enter :: real
  delta_R :: real
  delta_Z :: real
  temperature :: "real option"
  flag_coordinate_system :: string

text \<open>
  The eight values \<^verbatim>\<open>launch_beam\<close> returns. Python's \<^verbatim>\<open>None\<close> is \<open>None\<close>, and the
  array \<^verbatim>\<open>np.full_like(Psi_3D_lab_launch, fill_value=np.nan)\<close> is \<open>All_nan\<close>.
\<close>

record launch_result =
  K_initial :: "real vec3"
  initial_position :: "real vec3"
  launch_K :: "real vec3"
  Psi_3D_lab_initial :: "complex mat3"
  Psi_3D_lab_launch :: "complex mat3"
  Psi_3D_lab_entry :: "complex mat3 option"
  Psi_3D_lab_entry_cartersian :: "complex mat3 or_nan"
  distance_from_launch_to_entry :: "real option"

text \<open>
  Lines 303 to 406: the vacuum propagation from the antenna to the plasma boundary and the
  boundary condition, run when \<^verbatim>\<open>vacuum_propagation_flag\<close> is true.
\<close>

definition vacuum_propagation ::
  "externals \<Rightarrow> launch_args \<Rightarrow> py_flag \<Rightarrow> real \<Rightarrow> real \<Rightarrow> real \<Rightarrow> real vec3 \<Rightarrow> complex mat2 \<Rightarrow>
   real mat3 \<Rightarrow> complex mat3 \<Rightarrow> launch_result py" where
  "vacuum_propagation ext a Psi_BC_flag' toroidal_launch_angle poloidal_launch_angle wavenumber_K0
       K_launch Psi_w_beam_launch_cartersian rot Psi_3D_lab_launch' =
     then_py (lift (find_entry_point ext (launch_position a) poloidal_launch_angle
                      toroidal_launch_angle (poloidal_flux_enter a) (field a) (1 / 10 ^ 8)))
       (\<lambda>entry_position.
     let distance = launch_to_entry_distance (launch_position a) entry_position;
         K_lab_launch = K_launch;
         K_lab_Cartesian_launch = find_K_lab_Cartesian ext K_lab_launch (launch_position a);
         K_lab_Cartesian_entry = K_lab_Cartesian_launch;
         entry_position_Cartesian =
           cylindrical_to_cartesian ext
             (nth3 entry_position X0) (nth3 entry_position X1) (nth3 entry_position X2);
         K_lab_entry = find_K_lab ext K_lab_Cartesian_entry entry_position_Cartesian;
         K_R_entry = nth3 K_lab_entry X0;
         K_zeta_entry = nth3 K_lab_entry X1;
         K_Z_entry = nth3 K_lab_entry X2;
         Psi_3D_beam_entry_cartersian =
           make_array_3x3 (Psi_w_beam_entry wavenumber_K0 Psi_w_beam_launch_cartersian distance);
         Psi_3D_lab_entry_cartersian' = to_lab rot Psi_3D_beam_entry_cartersian;
         Psi_3D_lab_entry' =
           find_Psi_3D_lab ext Psi_3D_lab_entry_cartersian'
             (nth3 entry_position X0) (nth3 entry_position X1) K_R_entry K_zeta_entry;
         initial =
           (if Psi_BC_flag' = PyStr ''discontinuous'' then
              apply_discontinuous_BC ext (nth3 entry_position X0) (nth3 entry_position X2)
                Psi_3D_lab_entry' K_R_entry K_zeta_entry K_Z_entry (launch_angular_frequency a)
                (mode_flag a) (delta_R a) (delta_Z a) (field a) (hamiltonian a) (temperature a)
            else if Psi_BC_flag' = PyStr ''continuous'' then
              apply_continuous_BC ext (nth3 entry_position X0) (nth3 entry_position X2)
                Psi_3D_lab_entry' K_R_entry K_zeta_entry K_Z_entry
                (delta_R a) (delta_Z a) (field a) (hamiltonian a)
            else ((K_R_entry, K_zeta_entry, K_Z_entry), Psi_3D_lab_entry'))
     in ret \<lparr> K_initial = fst initial,
              initial_position = entry_position,
              launch_K = K_launch,
              Psi_3D_lab_initial = snd initial,
              Psi_3D_lab_launch = Psi_3D_lab_launch',
              Psi_3D_lab_entry = Some Psi_3D_lab_entry',
              Psi_3D_lab_entry_cartersian = Value Psi_3D_lab_entry_cartersian',
              distance_from_launch_to_entry = Some distance \<rparr>)"

text \<open>
  \<^verbatim>\<open>launch_beam\<close>. The result is \<open>None\<close> where the source returns Python's
  \<^verbatim>\<open>None\<close> (the value of the \<^verbatim>\<open>print\<close> call at line 281).
  The names \<^verbatim>\<open>K_R_launch\<close>, \<^verbatim>\<open>K_zeta_launch\<close> and \<^verbatim>\<open>K_Z_launch\<close> are bound only in
  the two branches of lines 131 to 155; line 156 reads them, and reading an unbound local
  name raises \<^verbatim>\<open>UnboundLocalError\<close>.
\<close>

definition launch_beam_body :: "externals \<Rightarrow> launch_args \<Rightarrow> py_flag \<Rightarrow> launch_result option py" where
  \<comment> \<open>lines 126 to 406, with the normalised flag\<close>
  "launch_beam_body ext a Psi_BC_flag' =
    (let toroidal_launch_angle = deg2rad (toroidal_launch_angle_Torbeam a);
         poloidal_launch_angle = deg2rad (poloidal_launch_angle_Torbeam a);
         wavenumber_K0 = angular_frequency_to_wavenumber ext (launch_angular_frequency a) in
     then_py (emit (Print [PNum wavenumber_K0, PStr ''wavenumber_K0''])) (\<lambda>_.
     then_py (launch_wavevector (flag_coordinate_system a) wavenumber_K0 toroidal_launch_angle
                poloidal_launch_angle (launch_position a)) (\<lambda>bound.
     then_py (case bound of
                None \<Rightarrow> raise (UnboundLocalError ''K_R_launch'')
              | Some K \<Rightarrow> ret K) (\<lambda>K_launch.
     let poloidal_rotation_angle = poloidal_launch_angle + pi / 2 in
     then_py (emit (Print [PNum poloidal_rotation_angle, PStr ''poloidal_rotation_angle''])) (\<lambda>_.
     then_py (lift (pow_minus_2 (launch_beam_width a))) (\<lambda>w2.
     let Psi_w_beam_launch_cartersian =
           Psi_w_beam_launch wavenumber_K0 (launch_beam_curvature a) w2;
         rot = rotation_matrix toroidal_launch_angle poloidal_launch_angle;
         Psi_3D_beam_launch_cartersian = make_array_3x3 Psi_w_beam_launch_cartersian in
     then_py (emit (Print [PStr ''Psi_3D NEEDS to be changed!''])) (\<lambda>_.
     then_py (if flag_coordinate_system a = ''cartesian'' then
                then_py (cartesian_launch_block (hamiltonian a) (launch_position a) K_launch
                           Psi_3D_beam_launch_cartersian rot) (\<lambda>lab. ret (Some lab))
              else ret None) (\<lambda>Psi_3D_lab_launch_cartersian.
     then_py (if flag_coordinate_system a = ''cylindrical'' then
                ret (Some (find_Psi_3D_lab ext (to_lab rot Psi_3D_beam_launch_cartersian)
                             (nth3 (launch_position a) X0) (nth3 (launch_position a) X1)
                             (nth3 K_launch X0) (nth3 K_launch X1)))
              else if flag_coordinate_system a = ''cartesian'' then
                ret Psi_3D_lab_launch_cartersian
              else
                then_py (emit (Print (invalid_flag_text (flag_coordinate_system a)))) (\<lambda>_.
                ret None)) (\<lambda>launch_matrix.
     case launch_matrix of
       None \<Rightarrow> ret None
     | Some Psi_3D_lab_launch' \<Rightarrow>
         then_py (emit (Print [])) (\<lambda>_.
         if \<not> vacuum_propagation_flag a then
           ret (Some \<lparr> K_initial = K_launch,
                       initial_position = launch_position a,
                       launch_K = K_launch,
                       Psi_3D_lab_initial = Psi_3D_lab_launch',
                       Psi_3D_lab_launch = Psi_3D_lab_launch',
                       Psi_3D_lab_entry = None,
                       Psi_3D_lab_entry_cartersian = All_nan,
                       distance_from_launch_to_entry = None \<rparr>)
         else
           then_py (vacuum_propagation ext a Psi_BC_flag' toroidal_launch_angle
                      poloidal_launch_angle wavenumber_K0 K_launch Psi_w_beam_launch_cartersian
                      rot Psi_3D_lab_launch') (\<lambda>r. ret (Some r))))))))))))"

definition launch_beam :: "externals \<Rightarrow> launch_args \<Rightarrow> launch_result option py" where
  "launch_beam ext a =
     then_py (normalise_Psi_BC_flag (Psi_BC_flag a)) (launch_beam_body ext a)"

subsection \<open>A concrete setting for the examples\<close>

text \<open>
  The examples below run the functions in one fixed setting: a field with circular flux
  surfaces around the magnetic axis at \<open>R = 2\<close>, \<open>Z = 0\<close>, whose flux is \<open>1\<close> on the circle
  of radius \<open>1\<close>, the usual coordinate conversions for the absent helpers, and the vacuum
  wavenumber \<open>\<omega> / c\<close>. The transforms that depend on the dispersion model leave their
  arguments unchanged. What the three scipy routines returned in the run is given as
  data.
\<close>

definition arctan2 :: "real \<Rightarrow> real \<Rightarrow> real" where
  \<comment> \<open>\<^verbatim>\<open>np.arctan2(y, x)\<close>\<close>
  "arctan2 y x =
     (if 0 < x then arctan (y / x)
      else if x < 0 \<and> 0 \<le> y then arctan (y / x) + pi
      else if x < 0 then arctan (y / x) - pi
      else if 0 < y then pi / 2
      else if y < 0 then - (pi / 2)
      else 0)"

definition circular_field :: MagneticField where
  "circular_field =
     \<lparr> poloidal_flux = (\<lambda>R Z. (R - 2)\<^sup>2 + Z\<^sup>2), R_coord_max = 4, Z_coord_max = 6 \<rparr>"

definition no_derivatives :: Hamiltonian where
  "no_derivatives = \<lparr> derivatives = (\<lambda>X Y Z K_X K_Y K_Z. Map.empty) \<rparr>"

definition example_externals :: "real list \<Rightarrow> minimize_result \<Rightarrow> root_result \<Rightarrow> externals" where
  "example_externals spline_roots minimum boundary =
     \<lparr> angular_frequency_to_wavenumber = (\<lambda>omega. omega / 299792458),
       find_Psi_3D_lab = (\<lambda>Psi R zeta K_R K_zeta. Psi),
       find_K_lab_Cartesian = (\<lambda>K position. K),
       find_K_lab = (\<lambda>K position. K),
       cartesian_to_cylindrical = (\<lambda>X Y Z. (sqrt (X\<^sup>2 + Y\<^sup>2), arctan2 Y X, Z)),
       cylindrical_to_cartesian = (\<lambda>R zeta Z. (R * cos zeta, R * sin zeta, Z)),
       toroidal_to_cartesian =
         (\<lambda>r theta zeta. (r * cos theta * cos zeta, r * cos theta * sin zeta, r * sin theta)),
       apply_discontinuous_BC =
         (\<lambda>R Z Psi K_R K_zeta K_Z omega mode dR dZ fld ham temp. ((K_R, K_zeta, K_Z), Psi)),
       apply_continuous_BC =
         (\<lambda>R Z Psi K_R K_zeta K_Z dR dZ fld ham. ((K_R, K_zeta, K_Z), Psi)),
       CubicSpline_roots = (\<lambda>xs ys. spline_roots),
       minimize_scalar = (\<lambda>f. minimum),
       root_scalar = (\<lambda>f x0 x1. boundary) \<rparr>"

definition example_args :: "real vec3 \<Rightarrow> py_flag \<Rightarrow> string \<Rightarrow> launch_args" where
  \<comment> \<open>width 0.05, no curvature, wavenumber 500, both launch angles zero\<close>
  "example_args position bc coordinates =
     \<lparr> toroidal_launch_angle_Torbeam = 0,
       poloidal_launch_angle_Torbeam = 0,
       launch_beam_width = 1 / 20,
       launch_beam_curvature = 0,
       launch_position = position,
       launch_angular_frequency = 299792458 * 500,
       mode_flag = 1,
       field = circular_field,
       hamiltonian = no_derivatives,
       vacuumLaunch_flag = True,
       vacuum_propagation_flag = True,
       Psi_BC_flag = bc,
       poloidal_flux_enter = 1,
       delta_R = - (1 / 10 ^ 4),
       delta_Z = 1 / 10 ^ 4,
       temperature = None,
       flag_coordinate_system = coordinates \<rparr>"

subsection \<open>The refinement as scipy runs it, and a field with a shelf\<close>

text \<open>
  Called as at lines 494 to 496, with \<^verbatim>\<open>x0\<close> and \<^verbatim>\<open>x1\<close> and neither a bracket nor a
  derivative, \<^verbatim>\<open>root_scalar\<close> runs the secant iteration of \<^verbatim>\<open>scipy.optimize.newton\<close> with that
  routine's defaults \<^verbatim>\<open>tol = 1.48e-8\<close>, \<^verbatim>\<open>rtol = 0\<close> and \<^verbatim>\<open>maxiter = 50\<close>. The iteration is
  written out here, over the reals, so that an example can run the refinement on the
  function it is given instead of taking its result as data: the two starting values are
  swapped when the second has the smaller residual, each step takes the zero of the line
  through the last two points, and the run ends as converged when two successive values
  are within \<^verbatim>\<open>tol\<close> of each other, or when the two residuals are equal. The routine refuses
  \<^verbatim>\<open>x1 = x0\<close>; the source passes \<^verbatim>\<open>x0 + 1e-3\<close>.
\<close>

definition isclose :: "real \<Rightarrow> real \<Rightarrow> real \<Rightarrow> real \<Rightarrow> bool" where
  \<comment> \<open>\<^verbatim>\<open>np.isclose(a, b, rtol, atol)\<close>\<close>
  "isclose a b rtol atol \<longleftrightarrow> \<bar>a - b\<bar> \<le> atol + rtol * \<bar>b\<bar>"

fun secant_loop ::
  "(real \<Rightarrow> real) \<Rightarrow> nat \<Rightarrow> real \<Rightarrow> real \<Rightarrow> real \<Rightarrow> real \<Rightarrow> root_result" where
  "secant_loop func 0 p0 q0 p1 q1 =
     \<lparr>rs_converged = False, rs_root = p1, rs_flag = ''convergence error''\<rparr>"
| "secant_loop func (Suc n) p0 q0 p1 q1 =
     (if q1 = q0 then
        \<lparr>rs_converged = True, rs_root = (p1 + p0) / 2, rs_flag = ''converged''\<rparr>
      else
        (let p = (if \<bar>q1\<bar> > \<bar>q0\<bar> then (- q0 / q1 * p1 + p0) / (1 - q0 / q1)
                  else (- q1 / q0 * p0 + p1) / (1 - q1 / q0))
         in if isclose p p1 0 (148 / 10 ^ 10) then
              \<lparr>rs_converged = True, rs_root = p, rs_flag = ''converged''\<rparr>
            else secant_loop func n p1 q1 p (func p)))"

definition secant :: "(real \<Rightarrow> real) \<Rightarrow> real \<Rightarrow> real \<Rightarrow> root_result" where
  "secant func x0 x1 =
     (let p0 = x0; p1 = x1; q0 = func p0; q1 = func p1
      in if \<bar>q1\<bar> < \<bar>q0\<bar> then secant_loop func 50 p1 q1 p0 q0
         else secant_loop func 50 p0 q0 p1 q1)"

text \<open>
  The second field has the flux of the circular one but for the radii between \<open>0.96\<close>
  and \<open>1.03\<close>, at the inner edge of the plasma. There the flux falls along straight
  pieces through the points \<open>(0.96, 1.0816)\<close>, \<open>(0.985, 1)\<close>, \<open>(1, 0.9603)\<close>,
  \<open>(1.0075, 0.96015)\<close> and \<open>(1.03, 0.9409)\<close>: it is continuous and decreasing as in the
  circular field, crosses the value \<open>1\<close> at \<open>R = 0.985\<close> instead of \<open>R = 1\<close>, and is almost
  flat from \<open>R = 1\<close> to \<open>R = 1.0075\<close>.
\<close>

definition lin :: "real \<times> real \<Rightarrow> real \<times> real \<Rightarrow> real \<Rightarrow> real" where
  \<comment> \<open>the straight line through two points\<close>
  "lin a b R = snd a + (snd b - snd a) * (R - fst a) / (fst b - fst a)"

definition shelf_profile :: "real \<Rightarrow> real" where
  "shelf_profile R =
     (if R \<le> 24 / 25 \<or> 103 / 100 \<le> R then (R - 2)\<^sup>2
      else if R \<le> 197 / 200 then lin (24 / 25, 676 / 625) (197 / 200, 1) R
      else if R \<le> 1 then lin (197 / 200, 1) (1, 9603 / 10000) R
      else if R \<le> 403 / 400 then lin (1, 9603 / 10000) (403 / 400, 19203 / 20000) R
      else lin (403 / 400, 19203 / 20000) (103 / 100, 9409 / 10000) R)"

definition shelf_field :: MagneticField where
  "shelf_field =
     \<lparr> poloidal_flux = (\<lambda>R Z. shelf_profile R + Z\<^sup>2), R_coord_max = 4, Z_coord_max = 6 \<rparr>"

definition secant_externals :: "real list \<Rightarrow> externals" where
  \<comment> \<open>the setting of the examples, with the refinement run by the secant iteration\<close>
  "secant_externals spline_roots =
     (example_externals spline_roots \<lparr>ms_x = 0, ms_fun = 0\<rparr>
        \<lparr>rs_converged = False, rs_root = 0, rs_flag = []\<rparr>) \<lparr> root_scalar := secant \<rparr>"

section \<open>The state codec and the evolution function\<close>

lemma bind_Inr_iff: "bind m f = Inr y \<longleftrightarrow> (\<exists>v. m = Inr v \<and> f v = Inr y)"
  by (cases m) (simp_all add: bind_def)

lemma pack_raises: "pack_beam_parameters_3D q_X q_Y q_Z K_X K_Y K_Z Psi = Inl TypeError"
  by (simp add: pack_beam_parameters_3D_def np_array_def)

lemma unpack_Psi_eq:
  "unpack_Psi bp =
     ((slot bp 6 12, 0, slot bp 10 16),
      (0, slot bp 7 13, slot bp 11 17),
      (slot bp 10 16, slot bp 11 17, slot bp 8 14))"
  by (simp add: unpack_Psi_def zeros3_def set3_def at3_def Let_def)

lemma symmetric3_iff:
  "symmetric3 M \<longleftrightarrow>
     at3 M X0 X1 = at3 M X1 X0 \<and> at3 M X0 X2 = at3 M X2 X0 \<and> at3 M X1 X2 = at3 M X2 X1"
  by (cases M rule: prod_cases3; cases "fst M" rule: prod_cases3;
      cases "fst (snd M)" rule: prod_cases3; cases "snd (snd M)" rule: prod_cases3)
     (auto simp: symmetric3_def transpose3_def col3_def at3_def)

text \<open>
  C1. The claim: for every position, wavevector and complex symmetric matrix,
  \<^verbatim>\<open>pack_beam_parameters_3D\<close> succeeds with the 18-slot state vector and
  \<^verbatim>\<open>unpack_beam_parameters_3D\<close> gives the original values back.
  The source does not do this. \<^verbatim>\<open>pack_beam_parameters_3D\<close> hands the eighteen values to
  \<^verbatim>\<open>np.array\<close> as eighteen positional arguments, not as one sequence, so the call raises
  TypeError for every input and packing followed by unpacking raises with it.
\<close>

theorem pack_then_unpack_raises:
  "bind (pack_beam_parameters_3D q_X q_Y q_Z K_X K_Y K_Z Psi) unpack_beam_parameters_3D
     = Inl TypeError"
  by (simp add: pack_raises bind_def)

text \<open>
  C2. The claim: for every 18-slot state vector and every provider,
  \<^verbatim>\<open>beam_evolution_fun_3D\<close> returns the packed derivative. The source ends in the same
  call of \<^verbatim>\<open>pack_beam_parameters_3D\<close>, so it returns for no input at all: whatever the
  state, the parameter \<open>tau\<close> and the provider, the result is an exception.
\<close>

theorem beam_evolution_fun_3D_never_returns:
  "beam_evolution_fun_3D tau bp provider \<noteq> Inr d"
  by (auto simp: beam_evolution_fun_3D_def bind_Inr_iff pack_raises split: prod.splits)

text \<open>
  C3. The claim: the decoded matrix is symmetric and \<open>Psi[0,1] = Psi[1,0]\<close> is slot 9 plus
  \<open>\<i>\<close> times slot 15. Line 65 of the source assigns \<^verbatim>\<open>Psi[:,0,1] = Psi[:,1,0]\<close>, the
  mirror in the wrong direction: it overwrites the entry just read from slots 9 and 15
  with the zero the matrix was created with. On the state vector that is zero but for
  slot 9 and slot 15, the decoded matrix is the zero matrix.
\<close>

theorem unpack_loses_Psi_xy:
  "unpack_beam_parameters_3D (Arr1 [0, 0, 0, 0, 0, 0, 0, 0, 0, 1, 0, 0, 0, 0, 0, 1, 0, 0])
     = Inr (0, 0, 0, 0, 0, 0, zeros3)"
  by (simp add: unpack_Psi_eq slot_def zeros3_def)

text \<open>
  C4. For every symmetric \<open>Psi\<close> and all second-derivative matrices with
  \<open>grad_grad_H\<close> and \<open>gradK_gradK_H\<close> symmetric, the matrix \<^verbatim>\<open>d_Psi_d_tau\<close> that
  \<^verbatim>\<open>beam_evolution_fun_3D\<close> computes is symmetric. The fourth matrix of the formula is the
  transpose of \<open>gradK_grad_H\<close> by line 94.
\<close>

theorem d_Psi_d_tau_symmetric:
  assumes "symmetric3 Psi" and "symmetric3 grad_grad_H" and "symmetric3 gradK_gradK_H"
  shows "symmetric3 (d_Psi_d_tau Psi grad_grad_H gradK_grad_H gradK_gradK_H)"
proof -
  obtain p00 p01 p02 p10 p11 p12 p20 p21 p22
    where P: "Psi = ((p00, p01, p02), (p10, p11, p12), (p20, p21, p22))"
    by (metis prod_cases3)
  obtain a00 a01 a02 a10 a11 a12 a20 a21 a22
    where A: "grad_grad_H = ((a00, a01, a02), (a10, a11, a12), (a20, a21, a22))"
    by (metis prod_cases3)
  obtain b00 b01 b02 b10 b11 b12 b20 b21 b22
    where B: "gradK_grad_H = ((b00, b01, b02), (b10, b11, b12), (b20, b21, b22))"
    by (metis prod_cases3)
  obtain c00 c01 c02 c10 c11 c12 c20 c21 c22
    where C: "gradK_gradK_H = ((c00, c01, c02), (c10, c11, c12), (c20, c21, c22))"
    by (metis prod_cases3)
  from assms have s:
    "p10 = p01" "p20 = p02" "p21 = p12"
    "a10 = a01" "a20 = a02" "a21 = a12"
    "c10 = c01" "c20 = c02" "c21 = c12"
    by (simp_all add: symmetric3_iff P A C at3_def)
  show ?thesis
    unfolding symmetric3_iff
    by (simp add: P A B C s d_Psi_d_tau_def Let_def mat_sub_def mat_neg_def zip_mat3_def
          map_mat3_def matmul_def dot3_def col3_def at3_def transpose3_def algebra_simps)
qed

theorem d_Psi_d_tau_symmetric_witness:
  "symmetric3 ((1 + \<i>, 2, 3), (2, 4 - \<i>, 5), (3, 5, 6 :: complex))
   \<and> symmetric3 ((1, 0, 2), (0, 3, 0), (2, 0, 1 :: complex))
   \<and> symmetric3 ((2, 1, 0), (1, 2, 1), (0, 1, 2 :: complex))
   \<and> symmetric3
        (d_Psi_d_tau ((1 + \<i>, 2, 3), (2, 4 - \<i>, 5), (3, 5, 6))
           ((1, 0, 2), (0, 3, 0), (2, 0, 1)) ((1, 2, 3), (4, 5, 6), (7, 8, 9))
           ((2, 1, 0), (1, 2, 1), (0, 1, 2)))"
proof -
  have h1: "symmetric3 ((1 + \<i>, 2, 3), (2, 4 - \<i>, 5), (3, 5, 6 :: complex))"
    by (simp add: symmetric3_iff at3_def)
  have h2: "symmetric3 ((1, 0, 2), (0, 3, 0), (2, 0, 1 :: complex))"
    by (simp add: symmetric3_iff at3_def)
  have h3: "symmetric3 ((2, 1, 0), (1, 2, 1), (0, 1, 2 :: complex))"
    by (simp add: symmetric3_iff at3_def)
  from d_Psi_d_tau_symmetric [OF h1 h2 h3, of "((1, 2, 3), (4, 5, 6), (7, 8, 9))"] h1 h2 h3
  show ?thesis by simp
qed

section \<open>The entry point search\<close>

subsection \<open>The concrete setting, evaluated\<close>

lemma hypot_8_6: "hypot 8 6 = 10"
proof -
  have "sqrt ((10::real)\<^sup>2) = 10" by simp
  then show ?thesis by (simp add: hypot_def)
qed

lemma hypot_8_15: "hypot 8 15 = 17"
proof -
  have "sqrt ((17::real)\<^sup>2) = 17" by simp
  then show ?thesis by (simp add: hypot_def)
qed


lemma hypot_inside: "hypot (63 / 10) 6 = 87 / 10"
proof -
  have "sqrt ((87 / 10 :: real)\<^sup>2) = 87 / 10" by simp
  moreover have "(63 / 10 :: real)\<^sup>2 + 6\<^sup>2 = (87 / 10)\<^sup>2" by (simp add: power2_eq_square)
  ultimately show ?thesis by (simp only: hypot_def)
qed

lemma example_scipy:
  "CubicSpline_roots (example_externals rs m b) = (\<lambda>xs ys. rs)"
  "minimize_scalar (example_externals rs m b) = (\<lambda>f. m)"
  "root_scalar (example_externals rs m b) = (\<lambda>f x0 x1. b)"
  by (simp_all add: example_externals_def)

lemma example_to_cylindrical:
  "0 < X \<Longrightarrow> to_cylindrical (example_externals rs m b) (X, 0, Z) = (X, 0, Z)"
  by (simp add: to_cylindrical_def example_externals_def arctan2_def)

lemma example_flux_at:
  "0 < X \<Longrightarrow> flux_at (example_externals rs m b) circular_field (X, 0, Z) = (X - 2)\<^sup>2 + Z\<^sup>2"
  by (simp add: flux_at_def example_to_cylindrical circular_field_def)

lemma beam_line_on_axis: "beam_line (x, 0, z) (k, 0, 0) t = (x + t * k, 0, z)"
  by (simp add: beam_line_def vec_add_def vec_scale_def)

lemma example_step_array_outside:
  "step_array (example_externals rs m b) circular_field (4, 0, 0) 0 0 = (- 10, 0, 0)"
  by (simp add: step_array_def Let_def example_externals_def circular_field_def hypot_8_6)

lemma example_step_array_above:
  "step_array (example_externals rs m b) circular_field (4, 0, 9) 0 0 = (- 17, 0, 0)"
  by (simp add: step_array_def Let_def example_externals_def circular_field_def hypot_8_15)

lemma example_step_array_inside:
  "step_array (example_externals rs m b) circular_field (23 / 10, 0, 0) 0 0 = (- (87 / 10), 0, 0)"
  by (simp add: step_array_def Let_def example_externals_def circular_field_def hypot_inside)

lemma example_entry:
  "find_entry_point
     (example_externals [1 / 10] \<lparr>ms_x = 0, ms_fun = 0\<rparr>
        \<lparr>rs_converged = True, rs_root = 1 / 10, rs_flag = ''converged''\<rparr>)
     (4, 0, 0) 0 0 1 circular_field adjust = Inr (3, 0, 0)"
  by (simp add: find_entry_point_def Let_def example_step_array_outside example_scipy
        beam_line_on_axis example_flux_at example_to_cylindrical power2_eq_square)

subsection \<open>The beam misses the plasma\<close>

text \<open>
  C5. When the roots of the cubic spline through the 100 samples of the flux distance are
  the empty array, \<^verbatim>\<open>find_entry_point\<close> returns no point: it raises the RuntimeError
  \<^verbatim>\<open>Beam does not hit plasma\<close>, whose message carries the cylindrical coordinates of the
  point of the line at the minimiser that \<^verbatim>\<open>minimize_scalar\<close> found for the flux distance,
  and the minimum itself.
\<close>

theorem find_entry_point_no_root:
  assumes "CubicSpline_roots ext linspace_0_1_100
             (map (poloidal_flux_boundary_along_line ext fld lp (step_array ext fld lp pol tor) enter)
                  linspace_0_1_100) = []"
  shows "find_entry_point ext lp pol tor enter fld adjust =
     (let steps = step_array ext fld lp pol tor;
          minimum = minimize_scalar ext (poloidal_flux_boundary_along_line ext fld lp steps enter)
      in Inl (RuntimeError (Beam_does_not_hit_plasma
            (to_cylindrical ext (beam_line lp steps (ms_x minimum))) (ms_fun minimum))))"
  using assms by (simp add: find_entry_point_def Let_def)

text \<open>
  A run of C5: the antenna at \<open>(4, 0, 9)\<close> aims level, above the plasma. No sample is a
  root, the closest approach is at \<open>R = 2\<close> with the flux distance \<open>80\<close>, and both are in the
  exception.
\<close>

theorem find_entry_point_no_root_witness:
  "CubicSpline_roots
     (example_externals [] \<lparr>ms_x = 2 / 17, ms_fun = 80\<rparr>
        \<lparr>rs_converged = False, rs_root = 0, rs_flag = []\<rparr>)
     linspace_0_1_100
     (map (poloidal_flux_boundary_along_line
             (example_externals [] \<lparr>ms_x = 2 / 17, ms_fun = 80\<rparr>
                \<lparr>rs_converged = False, rs_root = 0, rs_flag = []\<rparr>)
             circular_field (4, 0, 9)
             (step_array
                (example_externals [] \<lparr>ms_x = 2 / 17, ms_fun = 80\<rparr>
                   \<lparr>rs_converged = False, rs_root = 0, rs_flag = []\<rparr>)
                circular_field (4, 0, 9) 0 0) 1)
          linspace_0_1_100) = []
   \<and> find_entry_point
        (example_externals [] \<lparr>ms_x = 2 / 17, ms_fun = 80\<rparr>
           \<lparr>rs_converged = False, rs_root = 0, rs_flag = []\<rparr>)
        (4, 0, 9) 0 0 1 circular_field (1 / 10 ^ 8)
      = Inl (RuntimeError (Beam_does_not_hit_plasma (2, 0, 9) 80))"
proof -
  let ?ext = "example_externals [] \<lparr>ms_x = 2 / 17, ms_fun = 80\<rparr>
                \<lparr>rs_converged = False, rs_root = 0, rs_flag = []\<rparr>"
  have h: "CubicSpline_roots ?ext linspace_0_1_100
     (map (poloidal_flux_boundary_along_line ?ext circular_field (4, 0, 9)
             (step_array ?ext circular_field (4, 0, 9) 0 0) 1) linspace_0_1_100) = []"
    by (simp add: example_scipy)
  have c: "to_cylindrical ?ext (2, 0, 9) = (2, 0, 9)"
    by (rule example_to_cylindrical) simp
  from find_entry_point_no_root [OF h, of "1 / 10 ^ 8"] h
  show ?thesis
    by (simp add: Let_def example_scipy example_step_array_above beam_line_on_axis c)
qed

subsection \<open>The step after the refinement\<close>

text \<open>
  C9. The claim: where the flux at the refined root is above \<^verbatim>\<open>poloidal_flux_enter\<close>, the
  parameter is moved forward by the fixed step until the flux crosses, so the returned
  point always has a flux of at most \<^verbatim>\<open>poloidal_flux_enter\<close>. The comment at line 502
  says the same (take small steps until we are definitely inside), but lines 506 and 507
  are one \<^verbatim>\<open>if\<close>: the parameter moves once, and the flux at the moved parameter is never
  looked at. Whenever the flux is above the target at the refined root and still above
  it one step further, the point returned has a flux above the target.
\<close>

theorem find_entry_point_steps_once:
  assumes "CubicSpline_roots ext linspace_0_1_100
             (map (poloidal_flux_boundary_along_line ext fld lp (step_array ext fld lp pol tor) enter)
                  linspace_0_1_100) = r0 # rest"
    and "root_scalar ext
           (poloidal_flux_boundary_along_line ext fld lp (step_array ext fld lp pol tor) enter)
           r0 (r0 + 1 / 1000) = b"
    and "rs_converged b"
    and "flux_at ext fld (beam_line lp (step_array ext fld lp pol tor) (rs_root b)) > enter"
    and "flux_at ext fld (beam_line lp (step_array ext fld lp pol tor) (rs_root b + adjust)) > enter"
  shows "\<exists>p. find_entry_point ext lp pol tor enter fld adjust = Inr p
           \<and> p = to_cylindrical ext (beam_line lp (step_array ext fld lp pol tor) (rs_root b + adjust))
           \<and> poloidal_flux fld (nth3 p X0) (nth3 p X2) > enter"
  using assms by (simp add: find_entry_point_def Let_def flux_at_def)

text \<open>
  A run of C9: the antenna at \<open>(2.3, 0, 0)\<close> is inside the plasma
  (\<^verbatim>\<open>vacuumLaunch_flag\<close> documents this case), so the first crossing of the line is where it
  leaves the plasma, at the parameter \<open>13/87\<close>. The root finder reports the root
  \<open>13/87 + 1/10^15\<close>, just past the crossing. The flux there is above \<open>1\<close>, the one step
  moves further out, and the point returned has a flux above \<open>1\<close>.
\<close>

theorem find_entry_point_steps_once_witness:
  "CubicSpline_roots
     (example_externals [13 / 87, 33 / 87, 53 / 87] \<lparr>ms_x = 0, ms_fun = 0\<rparr>
        \<lparr>rs_converged = True, rs_root = 13 / 87 + 1 / 10 ^ 15, rs_flag = ''converged''\<rparr>)
     linspace_0_1_100
     (map (poloidal_flux_boundary_along_line
             (example_externals [13 / 87, 33 / 87, 53 / 87] \<lparr>ms_x = 0, ms_fun = 0\<rparr>
                \<lparr>rs_converged = True, rs_root = 13 / 87 + 1 / 10 ^ 15, rs_flag = ''converged''\<rparr>)
             circular_field (23 / 10, 0, 0) (- (87 / 10), 0, 0) 1)
          linspace_0_1_100) = [13 / 87, 33 / 87, 53 / 87]
   \<and> flux_at
        (example_externals [13 / 87, 33 / 87, 53 / 87] \<lparr>ms_x = 0, ms_fun = 0\<rparr>
           \<lparr>rs_converged = True, rs_root = 13 / 87 + 1 / 10 ^ 15, rs_flag = ''converged''\<rparr>)
        circular_field (beam_line (23 / 10, 0, 0) (- (87 / 10), 0, 0) (13 / 87 + 1 / 10 ^ 15)) > 1
   \<and> find_entry_point
        (example_externals [13 / 87, 33 / 87, 53 / 87] \<lparr>ms_x = 0, ms_fun = 0\<rparr>
           \<lparr>rs_converged = True, rs_root = 13 / 87 + 1 / 10 ^ 15, rs_flag = ''converged''\<rparr>)
        (23 / 10, 0, 0) 0 0 1 circular_field (1 / 10 ^ 8)
      = Inr (1 - 87 / 10 ^ 16 - 87 / 10 ^ 9, 0, 0)
   \<and> poloidal_flux circular_field (1 - 87 / 10 ^ 16 - 87 / 10 ^ 9) 0 > 1"
proof -
  let ?b = "\<lparr>rs_converged = True, rs_root = 13 / 87 + 1 / 10 ^ 15, rs_flag = ''converged''\<rparr>"
  let ?ext = "example_externals [13 / 87, 33 / 87, 53 / 87] \<lparr>ms_x = 0, ms_fun = 0\<rparr> ?b"
  let ?steps = "step_array ?ext circular_field (23 / 10, 0, 0) 0 0"
  have s: "?steps = (- (87 / 10), 0, 0)"
    by (rule example_step_array_inside)
  have h1: "CubicSpline_roots ?ext linspace_0_1_100
     (map (poloidal_flux_boundary_along_line ?ext circular_field (23 / 10, 0, 0) ?steps 1)
        linspace_0_1_100) = 13 / 87 # [33 / 87, 53 / 87]"
    by (simp add: example_scipy)
  have h2: "root_scalar ?ext
     (poloidal_flux_boundary_along_line ?ext circular_field (23 / 10, 0, 0) ?steps 1)
     (13 / 87) (13 / 87 + 1 / 1000) = ?b"
    by (simp add: example_scipy)
  have h3: "rs_converged ?b" by simp
  have b1: "beam_line (23 / 10, 0, 0) (- (87 / 10), 0, 0) (13 / 87 + 1 / 10 ^ 15)
              = (1 - 87 / 10 ^ 16, 0, 0)"
    by (simp add: beam_line_on_axis)
  have b2: "beam_line (23 / 10, 0, 0) (- (87 / 10), 0, 0) (13 / 87 + 1 / 10 ^ 15 + 1 / 10 ^ 8)
              = (1 - 87 / 10 ^ 16 - 87 / 10 ^ 9, 0, 0)"
    by (simp add: beam_line_on_axis)
  have f1: "flux_at ?ext circular_field (1 - 87 / 10 ^ 16, 0, 0) > 1"
    by (simp add: example_flux_at power2_eq_square)
  have f2: "flux_at ?ext circular_field (1 - 87 / 10 ^ 16 - 87 / 10 ^ 9, 0, 0) > 1"
    by (simp add: example_flux_at power2_eq_square)
  have h4: "flux_at ?ext circular_field (beam_line (23 / 10, 0, 0) ?steps (rs_root ?b)) > 1"
    unfolding s using f1 b1 by simp
  have h5: "flux_at ?ext circular_field
              (beam_line (23 / 10, 0, 0) ?steps (rs_root ?b + 1 / 10 ^ 8)) > 1"
    unfolding s using f2 b2 by simp
  have c: "to_cylindrical ?ext (1 - 87 / 10 ^ 16 - 87 / 10 ^ 9, 0, 0)
             = (1 - 87 / 10 ^ 16 - 87 / 10 ^ 9, 0, 0)"
    by (rule example_to_cylindrical) simp
  have b3: "beam_line (23 / 10, 0, 0) ?steps (rs_root ?b + 1 / 10 ^ 8)
              = (1 - 87 / 10 ^ 16 - 87 / 10 ^ 9, 0, 0)"
    by (simp add: example_step_array_inside beam_line_on_axis)
  from find_entry_point_steps_once [OF h1 h2 h3 h4 h5] obtain p
    where ret: "find_entry_point ?ext (23 / 10, 0, 0) 0 0 1 circular_field (1 / 10 ^ 8) = Inr p"
      and pe: "p = to_cylindrical ?ext (beam_line (23 / 10, 0, 0) ?steps (rs_root ?b + 1 / 10 ^ 8))"
      and pf: "poloidal_flux circular_field (nth3 p X0) (nth3 p X2) > 1"
    by blast
  have pval: "p = (1 - 87 / 10 ^ 16 - 87 / 10 ^ 9, 0, 0)"
    unfolding pe b3 by (rule c)
  have "find_entry_point ?ext (23 / 10, 0, 0) 0 0 1 circular_field (1 / 10 ^ 8)
          = Inr (1 - 87 / 10 ^ 16 - 87 / 10 ^ 9, 0, 0)"
    using ret unfolding pval .
  moreover have "poloidal_flux circular_field (1 - 87 / 10 ^ 16 - 87 / 10 ^ 9) 0 > 1"
    using pf unfolding pval by (simp only: nth3.simps)
  moreover have "CubicSpline_roots ?ext linspace_0_1_100
     (map (poloidal_flux_boundary_along_line ?ext circular_field (23 / 10, 0, 0)
             (- (87 / 10), 0, 0) 1) linspace_0_1_100) = [13 / 87, 33 / 87, 53 / 87]"
    by (simp add: example_scipy)
  moreover have "flux_at ?ext circular_field
      (beam_line (23 / 10, 0, 0) (- (87 / 10), 0, 0) (13 / 87 + 1 / 10 ^ 15)) > 1"
    using f1 b1 by simp
  ultimately show ?thesis by blast
qed

subsection \<open>The entry point and the launch line\<close>




lemma secant_to_cylindrical:
  "to_cylindrical (secant_externals rs) (X, 0, Z) = (\<bar>X\<bar>, arctan2 0 X, Z)"
  by (simp add: to_cylindrical_def secant_externals_def example_externals_def)



lemma shelf_flux_along_line:
  "poloidal_flux_boundary_along_line (secant_externals rs) shelf_field (1 / 2, 0, 0)
     (15 / 2, 0, 0) 1 tau = shelf_profile \<bar>1 / 2 + tau * (15 / 2)\<bar> - 1"
  by (simp add: poloidal_flux_boundary_along_line_def flux_at_def Let_def beam_line_on_axis
        secant_to_cylindrical shelf_field_def)


lemma shelf_profile_outside:
  "R \<le> 24 / 25 \<or> 103 / 100 \<le> R \<Longrightarrow> shelf_profile R = (R - 2)\<^sup>2"
  by (simp add: shelf_profile_def)

text \<open>
  The hundred values the spline is fitted to are those of the parabola
  \<open>(7.5 tau - 1.5)\<^sup>2 - 1\<close>, the values the circular field gives on this line. A cubic
  spline through the values of a parabola with not-a-knot ends, the kind \<^verbatim>\<open>CubicSpline\<close>
  builds, is that parabola, and its zeros are \<open>1/15\<close> and \<open>1/3\<close>.
\<close>

lemma shelf_samples:
  "map (poloidal_flux_boundary_along_line (secant_externals rs) shelf_field (1 / 2, 0, 0)
          (15 / 2, 0, 0) 1) linspace_0_1_100
     = map (\<lambda>tau. (15 / 2 * tau - 3 / 2)\<^sup>2 - 1) linspace_0_1_100"
proof -
  have "shelf_profile \<bar>1 / 2 + real i / 99 * (15 / 2)\<bar> - 1 = (15 / 2 * (real i / 99) - 3 / 2)\<^sup>2 - 1"
    for i :: nat
  proof -
    let ?R = "1 / 2 + real i / 99 * (15 / 2)"
    have pos: "0 \<le> ?R" by simp
    have "i \<le> 6 \<or> 7 \<le> i" by arith
    then have "?R \<le> 24 / 25 \<or> 103 / 100 \<le> ?R"
    proof
      assume "i \<le> 6"
      then have "real i \<le> 6" by simp
      then show ?thesis by simp
    next
      assume "7 \<le> i"
      then have "7 \<le> real i" by simp
      then show ?thesis by simp
    qed
    then have "shelf_profile ?R = (?R - 2)\<^sup>2" by (rule shelf_profile_outside)
    moreover have "\<bar>?R\<bar> = ?R" using pos by simp
    ultimately show ?thesis by (simp add: power2_eq_square algebra_simps)
  qed
  then show ?thesis
    by (simp add: linspace_0_1_100_def shelf_flux_along_line del: upt.simps)
qed

lemma parabola_roots:
  "(15 / 2 * tau - 3 / 2)\<^sup>2 - 1 = 0 \<longleftrightarrow> tau = 1 / 15 \<or> tau = (1 / 3 :: real)"
proof -
  have e: "(15 / 2 * tau - 3 / 2)\<^sup>2 - 1 = 225 / 4 * ((tau - 1 / 15) * (tau - 1 / 3))"
    by (simp add: power2_eq_square field_simps)
  show ?thesis unfolding e by simp
qed




section \<open>The launch conditions\<close>

subsection \<open>Runs that return\<close>

lemma then_py_InrE:
  assumes "then_py m f = (evs, Inr y)"
  obtains evs1 v evs2 where "m = (evs1, Inr v)" and "f v = (evs2, Inr y)" and "evs = evs1 @ evs2"
  using assms by (auto simp: then_py_def split: prod.splits sum.splits)

lemma then_py_Inr_ex:
  assumes "then_py m f = (evs, Inr y)" and "\<And>v evs'. f v = (evs', Inr y) \<Longrightarrow> Q v"
  shows "\<exists>v. Q v"
  using assms by (auto elim!: then_py_InrE)

lemma vacuum_propagation_result:
  assumes "vacuum_propagation ext a bc tor pol K0 K L rot P = (evs, Inr r)"
  shows "\<exists>entry_position.
           distance_from_launch_to_entry r
             = Some (launch_to_entry_distance (launch_position a) entry_position)
         \<and> Psi_3D_lab_entry_cartersian r
             = Value (to_lab rot (make_array_3x3
                 (Psi_w_beam_entry K0 L (launch_to_entry_distance (launch_position a) entry_position))))"
  by (rule then_py_Inr_ex [OF assms [unfolded vacuum_propagation_def]])
     (auto simp: Let_def ret_def)

lemma launch_beam_body_result:
  assumes "launch_beam_body ext a bc = (evs, Inr (Some r))" and "vacuum_propagation_flag a"
  shows "\<exists>w2 entry_position.
           pow_minus_2 (launch_beam_width a) = Inr w2
         \<and> distance_from_launch_to_entry r
             = Some (launch_to_entry_distance (launch_position a) entry_position)
         \<and> Psi_3D_lab_entry_cartersian r
             = Value (to_lab (rotation_matrix (deg2rad (toroidal_launch_angle_Torbeam a))
                                (deg2rad (poloidal_launch_angle_Torbeam a)))
                 (make_array_3x3
                   (Psi_w_beam_entry (angular_frequency_to_wavenumber ext (launch_angular_frequency a))
                      (Psi_w_beam_launch (angular_frequency_to_wavenumber ext (launch_angular_frequency a))
                         (launch_beam_curvature a) w2)
                      (launch_to_entry_distance (launch_position a) entry_position))))"
  using assms
  by (auto simp: launch_beam_body_def Let_def ret_def lift_def emit_def raise_def
           elim!: then_py_InrE dest!: vacuum_propagation_result split: option.splits if_splits)
     blast+

subsection \<open>The coordinate flag\<close>

lemma launch_wavevector_invalid:
  "c \<noteq> ''cylindrical'' \<Longrightarrow> c \<noteq> ''cartesian'' \<Longrightarrow>
     launch_wavevector c K0 tor pol lp = ([], Inr None)"
  by (simp add: launch_wavevector_def ret_def)

lemma launch_beam_body_invalid_flag:
  assumes "flag_coordinate_system a \<noteq> ''cylindrical''"
    and "flag_coordinate_system a \<noteq> ''cartesian''"
  shows "launch_beam_body ext a bc =
           ([Print [PNum (angular_frequency_to_wavenumber ext (launch_angular_frequency a)),
                    PStr ''wavenumber_K0'']],
            Inl (UnboundLocalError ''K_R_launch''))"
  using assms
  by (simp add: launch_beam_body_def Let_def launch_wavevector_invalid then_py_def emit_def raise_def)

text \<open>
  C6. The claim: for every value of \<^verbatim>\<open>flag_coordinate_system\<close> other than the two
  recognised ones, \<^verbatim>\<open>launch_beam\<close> fails with a configuration error that names the value
  and the accepted values, before any numerical work. The source has such a message, in
  the \<^verbatim>\<open>else\<close> branch at lines 280 to 283, but that branch is never reached and would
  only print and return \<^verbatim>\<open>None\<close>. With another value neither branch of lines 131 to 155
  binds \<^verbatim>\<open>K_R_launch\<close>, and line 156 reads it: the call raises UnboundLocalError, whose
  message names the variable and not the flag, after the angles were converted and the
  wavenumber was computed and printed. On the value \<^verbatim>\<open>spherical\<close>:
\<close>

theorem launch_beam_invalid_coordinate_flag:
  "launch_beam
     (example_externals [] \<lparr>ms_x = 0, ms_fun = 0\<rparr>
        \<lparr>rs_converged = False, rs_root = 0, rs_flag = []\<rparr>)
     (example_args (4, 0, 0) PyNone ''spherical'')
   = ([Print [PNum 500, PStr ''wavenumber_K0'']], Inl (UnboundLocalError ''K_R_launch''))"
proof -
  let ?ext = "example_externals [] \<lparr>ms_x = 0, ms_fun = 0\<rparr>
                \<lparr>rs_converged = False, rs_root = 0, rs_flag = []\<rparr>"
  let ?a = "example_args (4, 0, 0) PyNone ''spherical''"
  have n: "normalise_Psi_BC_flag (Psi_BC_flag ?a) = ([], Inr PyNone)"
    by (simp add: normalise_Psi_BC_flag_def ret_def example_args_def)
  have c: "flag_coordinate_system ?a \<noteq> ''cylindrical''"
    "flag_coordinate_system ?a \<noteq> ''cartesian''"
    by (simp_all add: example_args_def)
  have k: "angular_frequency_to_wavenumber ?ext (launch_angular_frequency ?a) = 500"
    by (simp add: example_args_def example_externals_def)
  show ?thesis
    by (simp add: launch_beam_def n then_py_def launch_beam_body_invalid_flag [OF c] k)
qed

subsection \<open>The boundary-condition flag\<close>









subsection \<open>The vacuum propagation of the beam matrix\<close>

lemma scalar_inverse:
  "k \<noteq> 0 \<Longrightarrow> find_inverse_2D (scale2 k eye2) = scale2 (1 / k) eye2"
  by (simp add: find_inverse_2D_def scale2_def eye2_def Let_def)

lemma add2_scalar: "add2 (scale2 x eye2) (scale2 y eye2) = scale2 (x + y) eye2"
  by (simp add: add2_def scale2_def eye2_def)

lemma matmul2_scalar: "matmul2 (scale2 x eye2) (scale2 y eye2) = scale2 (x * y) eye2"
  by (simp add: matmul2_def scale2_def eye2_def)

lemma scale2_one: "scale2 1 eye2 = eye2"
  by (simp add: scale2_def eye2_def)

lemma make_array_3x3_scalar: "make_array_3x3 (scale2 x eye2) = ((x, 0, 0), (0, x, 0), (0, 0, 0))"
  by (simp add: make_array_3x3_def scale2_def eye2_def)

lemma Im_inverse_neg:
  assumes "0 < Im psi"
  shows "Im (1 / psi) < 0"
proof -
  have "psi \<noteq> 0" using assms by auto
  then have "0 < (Re psi)\<^sup>2 + (Im psi)\<^sup>2"
    by (simp add: complex_eq_iff sum_power2_gt_zero_iff)
  then show ?thesis using assms by (simp add: Im_divide divide_neg_pos)
qed

text \<open>
  The modelled \<^verbatim>\<open>find_inverse_2D\<close> is the matrix inverse wherever the determinant is not
  zero.
\<close>

lemma find_inverse_2D_inverse:
  assumes "a * d - b * c \<noteq> 0"
  shows "matmul2 (find_inverse_2D ((a, b), (c, d))) ((a, b), (c, d)) = eye2"
    and "matmul2 ((a, b), (c, d)) (find_inverse_2D ((a, b), (c, d))) = eye2"
proof -
  have "d * a / (a * d - b * c) - b * c / (a * d - b * c) = 1"
    using assms by (simp add: diff_divide_distrib [symmetric] mult.commute)
  moreover have "a * d / (a * d - b * c) - b * c / (a * d - b * c) = 1"
    using assms by (simp add: diff_divide_distrib [symmetric])
  moreover have "a * d / (a * d - b * c) - c * b / (a * d - b * c) = 1"
    using assms by (simp add: diff_divide_distrib [symmetric] mult.commute)
  ultimately show "matmul2 (find_inverse_2D ((a, b), (c, d))) ((a, b), (c, d)) = eye2"
    and "matmul2 ((a, b), (c, d)) (find_inverse_2D ((a, b), (c, d))) = eye2"
    by (simp_all add: matmul2_def find_inverse_2D_def eye2_def Let_def mult.commute)
qed

text \<open>
  C8. With vacuum propagation on, a launch width \<open>w > 0\<close> and a wavenumber \<open>K0 > 0\<close>, every run
  of \<^verbatim>\<open>launch_beam\<close> that returns has computed a launch-to-entry distance \<open>d\<close>, and the
  entry-frame transverse matrix \<open>E\<close> it used is the inverse of
  \<open>M = (d / K0) I + L\<^sup>-\<^sup>1\<close>, where \<open>L = (K0 c + 2\<i>/w\<^sup>2) I\<close> is the launch matrix: \<open>L\<^sup>-\<^sup>1 L = L L\<^sup>-\<^sup>1 = I\<close>
  and \<open>E M = M E = I\<close>, so both inverses exist. \<open>E\<close> is embedded with a zero third row and
  column, and the rotation to the lab frame is applied to the embedded matrix: the
  seventh value returned is \<open>R\<^sup>T (embedded E) R\<close>.
\<close>

theorem vacuum_diffraction_closed_form:
  assumes "launch_beam ext a = (evs, Inr (Some r))"
    and "vacuum_propagation_flag a"
    and "0 < launch_beam_width a"
    and "0 < angular_frequency_to_wavenumber ext (launch_angular_frequency a)"
  shows "let K0 = angular_frequency_to_wavenumber ext (launch_angular_frequency a);
             psi = complex_of_real (K0 * launch_beam_curvature a)
                   + 2 * \<i> / complex_of_real ((launch_beam_width a)\<^sup>2);
             L = scale2 psi eye2;
             rot = rotation_matrix (deg2rad (toroidal_launch_angle_Torbeam a))
                     (deg2rad (poloidal_launch_angle_Torbeam a))
         in \<exists>d L_inv M E.
              distance_from_launch_to_entry r = Some d
            \<and> matmul2 L_inv L = eye2 \<and> matmul2 L L_inv = eye2
            \<and> M = add2 (scale2 (complex_of_real (d / K0)) eye2) L_inv
            \<and> matmul2 E M = eye2 \<and> matmul2 M E = eye2
            \<and> E = scale2 (1 / (complex_of_real (d / K0) + 1 / psi)) eye2
            \<and> make_array_3x3 E =
                ((1 / (complex_of_real (d / K0) + 1 / psi), 0, 0),
                 (0, 1 / (complex_of_real (d / K0) + 1 / psi), 0),
                 (0, 0, 0))
            \<and> Psi_3D_lab_entry_cartersian r = Value (to_lab rot (make_array_3x3 E))"
proof -
  define K0 where "K0 = angular_frequency_to_wavenumber ext (launch_angular_frequency a)"
  define w where "w = launch_beam_width a"
  define psi where "psi = complex_of_real (K0 * launch_beam_curvature a)
                            + 2 * \<i> / complex_of_real (w\<^sup>2)"
  from assms(1) obtain bc evs' where body: "launch_beam_body ext a bc = (evs', Inr (Some r))"
    unfolding launch_beam_def by (elim then_py_InrE)
  from launch_beam_body_result [OF body assms(2)] obtain w2 ep
    where p: "pow_minus_2 w = Inr w2"
      and d: "distance_from_launch_to_entry r
                = Some (launch_to_entry_distance (launch_position a) ep)"
      and e: "Psi_3D_lab_entry_cartersian r
                = Value (to_lab (rotation_matrix (deg2rad (toroidal_launch_angle_Torbeam a))
                                   (deg2rad (poloidal_launch_angle_Torbeam a)))
                    (make_array_3x3
                      (Psi_w_beam_entry K0 (Psi_w_beam_launch K0 (launch_beam_curvature a) w2)
                         (launch_to_entry_distance (launch_position a) ep))))"
    unfolding K0_def w_def by blast
  define dist where "dist = launch_to_entry_distance (launch_position a) ep"
  define mu where "mu = complex_of_real (dist / K0) + 1 / psi"
  have wpos: "0 < w" using assms(3) by (simp add: w_def)
  from p wpos have w2: "w2 = 1 / w\<^sup>2" by (simp add: pow_minus_2_def)
  have L: "Psi_w_beam_launch K0 (launch_beam_curvature a) w2 = scale2 psi eye2"
    by (simp add: Psi_w_beam_launch_def w2 psi_def Let_def)
  have "Im psi = 2 / w\<^sup>2" by (simp add: psi_def Im_divide power2_eq_square)
  with wpos have im: "0 < Im psi" by simp
  then have psi0: "psi \<noteq> 0" by auto
  have "Im mu = Im (1 / psi)" by (simp add: mu_def)
  with Im_inverse_neg [OF im] have mu0: "mu \<noteq> 0" by auto
  have Linv: "find_inverse_2D (scale2 psi eye2) = scale2 (1 / psi) eye2"
    using psi0 by (rule scalar_inverse)
  have E: "Psi_w_beam_entry K0 (scale2 psi eye2) dist = scale2 (1 / mu) eye2"
    using mu0 by (simp add: Psi_w_beam_entry_def Let_def Linv add2_scalar scalar_inverse mu_def)
  have i1: "matmul2 (scale2 (1 / psi) eye2) (scale2 psi eye2) = eye2"
    "matmul2 (scale2 psi eye2) (scale2 (1 / psi) eye2) = eye2"
    using psi0 by (simp_all add: matmul2_scalar scale2_one)
  have i2: "matmul2 (scale2 (1 / mu) eye2) (scale2 mu eye2) = eye2"
    "matmul2 (scale2 mu eye2) (scale2 (1 / mu) eye2) = eye2"
    using mu0 by (simp_all add: matmul2_scalar scale2_one)
  have M: "add2 (scale2 (complex_of_real (dist / K0)) eye2) (scale2 (1 / psi) eye2) = scale2 mu eye2"
    by (simp add: add2_scalar mu_def)
  have "\<exists>d L_inv M E.
              distance_from_launch_to_entry r = Some d
            \<and> matmul2 L_inv (scale2 psi eye2) = eye2 \<and> matmul2 (scale2 psi eye2) L_inv = eye2
            \<and> M = add2 (scale2 (complex_of_real (d / K0)) eye2) L_inv
            \<and> matmul2 E M = eye2 \<and> matmul2 M E = eye2
            \<and> E = scale2 (1 / (complex_of_real (d / K0) + 1 / psi)) eye2
            \<and> make_array_3x3 E =
                ((1 / (complex_of_real (d / K0) + 1 / psi), 0, 0),
                 (0, 1 / (complex_of_real (d / K0) + 1 / psi), 0),
                 (0, 0, 0))
            \<and> Psi_3D_lab_entry_cartersian r
                = Value (to_lab (rotation_matrix (deg2rad (toroidal_launch_angle_Torbeam a))
                                   (deg2rad (poloidal_launch_angle_Torbeam a)))
                          (make_array_3x3 E))"
    apply (rule exI [of _ dist])
    apply (rule exI [of _ "scale2 (1 / psi) eye2"])
    apply (rule exI [of _ "scale2 mu eye2"])
    apply (rule exI [of _ "scale2 (1 / mu) eye2"])
    using d e
    apply (simp add: i1 i2 M L E dist_def [symmetric] make_array_3x3_scalar)
    apply (simp add: mu_def add2_scalar)
    done
  then show ?thesis
    by (simp add: Let_def K0_def psi_def w_def)
qed

lemma example_distance: "launch_to_entry_distance (4, 0, 0) (3, 0, 0) = 1"
  by (simp add: launch_to_entry_distance_def)

lemma example_run:
  "\<exists>evs r.
     launch_beam
       (example_externals [1 / 10] \<lparr>ms_x = 0, ms_fun = 0\<rparr>
          \<lparr>rs_converged = True, rs_root = 1 / 10, rs_flag = ''converged''\<rparr>)
       (example_args (4, 0, 0) PyNone ''cylindrical'') = (evs, Inr (Some r))
     \<and> distance_from_launch_to_entry r = Some 1"
  by (simp add: launch_beam_def launch_beam_body_def vacuum_propagation_def
        normalise_Psi_BC_flag_def launch_wavevector_def pow_minus_2_def
        then_py_def ret_def emit_def lift_def raise_def Let_def
        example_args_def deg2rad_def example_entry example_distance)

text \<open>
  A run of C8: width \<open>0.05\<close>, no curvature, \<open>K0 = 500\<close>, the antenna at \<open>R = 4\<close> and the entry
  at \<open>R = 3\<close>, so \<open>d = 1\<close>. The launch matrix is \<open>800\<i> I\<close> and the entry matrix is
  \<open>1 / (1/500 + 1/(800\<i>)) I\<close>.
\<close>

theorem vacuum_diffraction_closed_form_witness:
  "vacuum_propagation_flag (example_args (4, 0, 0) PyNone ''cylindrical'')
   \<and> 0 < launch_beam_width (example_args (4, 0, 0) PyNone ''cylindrical'')
   \<and> 0 < angular_frequency_to_wavenumber
            (example_externals [1 / 10] \<lparr>ms_x = 0, ms_fun = 0\<rparr>
               \<lparr>rs_converged = True, rs_root = 1 / 10, rs_flag = ''converged''\<rparr>)
            (launch_angular_frequency (example_args (4, 0, 0) PyNone ''cylindrical''))
   \<and> (\<exists>evs r.
         launch_beam
           (example_externals [1 / 10] \<lparr>ms_x = 0, ms_fun = 0\<rparr>
              \<lparr>rs_converged = True, rs_root = 1 / 10, rs_flag = ''converged''\<rparr>)
           (example_args (4, 0, 0) PyNone ''cylindrical'') = (evs, Inr (Some r))
       \<and> distance_from_launch_to_entry r = Some 1
       \<and> Psi_3D_lab_entry_cartersian r =
           Value (to_lab (rotation_matrix 0 0)
                    (make_array_3x3 (scale2 (1 / (1 / 500 + 1 / (800 * \<i>))) eye2))))"
proof -
  let ?ext = "example_externals [1 / 10] \<lparr>ms_x = 0, ms_fun = 0\<rparr>
                \<lparr>rs_converged = True, rs_root = 1 / 10, rs_flag = ''converged''\<rparr>"
  let ?a = "example_args (4, 0, 0) PyNone ''cylindrical''"
  from example_run obtain evs r
    where run: "launch_beam ?ext ?a = (evs, Inr (Some r))"
      and dist: "distance_from_launch_to_entry r = Some 1"
    by blast
  have h2: "vacuum_propagation_flag ?a" by (simp add: example_args_def)
  have h3: "0 < launch_beam_width ?a" by (simp add: example_args_def)
  have k: "angular_frequency_to_wavenumber ?ext (launch_angular_frequency ?a) = 500"
    by (simp add: example_args_def example_externals_def)
  have h4: "0 < angular_frequency_to_wavenumber ?ext (launch_angular_frequency ?a)"
    by (simp add: k)
  have sel: "launch_beam_curvature ?a = 0" "launch_beam_width ?a = 1 / 20"
    "toroidal_launch_angle_Torbeam ?a = 0" "poloidal_launch_angle_Torbeam ?a = 0"
    by (simp_all add: example_args_def)
  from vacuum_diffraction_closed_form [OF run h2 h3 h4] dist
  have "Psi_3D_lab_entry_cartersian r =
           Value (to_lab (rotation_matrix 0 0)
                    (make_array_3x3 (scale2 (1 / (1 / 500 + 1 / (800 * \<i>))) eye2)))"
    by (auto simp: Let_def k sel deg2rad_def power2_eq_square)
  with run dist h2 h3 h4 show ?thesis by blast
qed

section \<open>Further properties of the codec and the rotation\<close>

text \<open>
  Had the eighteen values been packed as one sequence, decoding would give back the
  position, the wavevector and every entry of a symmetric matrix but \<open>Psi[0,1]\<close> and
  \<open>Psi[1,0]\<close>, which line 65 sets to zero.
\<close>

lemma unpack_pack_as_documented:
  assumes "symmetric3 Psi"
  shows "unpack_beam_parameters_3D (pack_as_documented q_X q_Y q_Z K_X K_Y K_Z Psi)
           = Inr (q_X, q_Y, q_Z, K_X, K_Y, K_Z, set3 (set3 Psi X0 X1 0) X1 X0 0)"
proof -
  obtain p00 p01 p02 p10 p11 p12 p20 p21 p22
    where P: "Psi = ((p00, p01, p02), (p10, p11, p12), (p20, p21, p22))"
    by (metis prod_cases3)
  from assms have s: "p10 = p01" "p20 = p02" "p21 = p12"
    by (simp_all add: symmetric3_iff P at3_def)
  show ?thesis
    by (simp add: P s pack_as_documented_def unpack_Psi_eq slot_def set3_def at3_def
          complex_eq_iff)
qed

text \<open>The decoded matrix is symmetric for every state vector.\<close>

theorem unpack_Psi_symmetric: "symmetric3 (unpack_Psi bp)"
  by (simp add: unpack_Psi_eq symmetric3_iff at3_def)

text \<open>
  The rotation built at lines 157 to 197 is orthogonal for every pair of angles, so its
  transpose, which the source uses as the inverse, is its inverse.
\<close>

theorem rotation_matrix_orthogonal:
  "matmul (transpose3 (rotation_matrix tor pol)) (rotation_matrix tor pol)
     = ((1, 0, 0), (0, 1, 0), (0, 0, 1))"
proof -
  have c: "cos t * cos t + sin t * sin t = 1" for t :: real
    using sin_cos_squared_add3 [of t] by (simp add: add.commute)
  have both: "x * (y * (cos t * cos t)) + x * (y * (sin t * sin t)) = x * y" for x y t :: real
  proof -
    have "x * (y * (cos t * cos t)) + x * (y * (sin t * sin t))
            = x * y * (cos t * cos t + sin t * sin t)"
      by (simp only: distrib_left mult.assoc)
    also have "\<dots> = x * y"
      by (simp only: c mult_1_right)
    finally show ?thesis .
  qed
  have c': "sin t * sin t + cos t * cos t = 1" for t :: real
    using c [of t] by (simp add: add.commute)
  show ?thesis
    by (simp add: rotation_matrix_def Let_def matmul_def transpose3_def dot3_def col3_def at3_def
          algebra_simps both c c')
qed

end
